theory Spec2Isabelle
  imports Complex_Main "HOL-Library.AList"
begin

section \<open>The KYC document validator (validators.py)\<close>

text \<open>
  A shallow embedding of \<^verbatim>\<open>DocumentValidator\<close>: the rule engine that runs over an
  extraction result and returns a validation report. Python exceptions are values of
  \<open>py_error\<close> (\<open>Inl\<close> raises, \<open>Inr\<close> returns), the instance attribute \<^verbatim>\<open>self.results\<close>
  is threaded as a \<open>validator\<close> record, and \<^verbatim>\<open>datetime.now()\<close> is the parameter
  \<open>now\<close> (one reading of the clock per run).
\<close>

subsection \<open>Python strings\<close>

text \<open>
  A Python \<^verbatim>\<open>str\<close> is a sequence of code points. The model uses \<open>string\<close>, whose
  characters are the code points U+0000 to U+00FF; text with code points beyond U+00FF
  is outside the model. The character classes below are those of CPython on that range.
\<close>

definition ord :: "char \<Rightarrow> nat" where
  "ord c = of_char c"

text \<open>\<^verbatim>\<open>str.isspace\<close> and the regex class \<^verbatim>\<open>\s\<close>: TAB, LF, VT, FF, CR, FS, GS, RS, US,
  SPACE, NEL (U+0085) and NBSP (U+00A0).\<close>

definition isspace :: "char \<Rightarrow> bool" where
  "isspace c = (ord c \<in> set [9, 10, 11, 12, 13, 28, 29, 30, 31, 32, 133, 160])"

text \<open>The regex class \<^verbatim>\<open>\d\<close>: below U+0100 the only decimal digits are 0 to 9.\<close>

definition isdigit :: "char \<Rightarrow> bool" where
  "isdigit c = (c \<in> set ''0123456789'')"

text \<open>\<^verbatim>\<open>str.strip()\<close> and \<^verbatim>\<open>str.split()\<close> without arguments.\<close>

definition strip :: "string \<Rightarrow> string" where
  "strip s = rev (dropWhile isspace (rev (dropWhile isspace s)))"

fun split_from :: "string \<Rightarrow> string \<Rightarrow> string list" where
  "split_from cur [] = (if cur = [] then [] else [rev cur])"
| "split_from cur (c # cs) =
     (if isspace c then (if cur = [] then split_from [] cs else rev cur # split_from [] cs)
      else split_from (c # cur) cs)"

definition split :: "string \<Rightarrow> string list" where
  "split s = split_from [] s"

text \<open>
  \<^verbatim>\<open>str.upper()\<close>, one character at a time: a to z and the accented small letters map to
  their capitals, sharp s (U+00DF) maps to the two letters SS. The capitals of U+00B5 and
  U+00FF lie beyond U+00FF; they are left in place, which no caller can tell apart: every
  caller either deletes all characters outside A-Z and 0-9 or compares the result with
  ASCII words.
\<close>

definition upper_char :: "char \<Rightarrow> string" where
  "upper_char c =
     (let n = ord c in
      if 97 \<le> n \<and> n \<le> 122 then [char_of (n - 32)]
      else if n = 223 then ''SS''
      else if 224 \<le> n \<and> n \<le> 254 \<and> n \<noteq> 247 then [char_of (n - 32)]
      else [c])"

definition upper :: "string \<Rightarrow> string" where
  "upper s = concat (map upper_char s)"

text \<open>\<^verbatim>\<open>str(n)\<close> for an integer, as used by the f-strings.\<close>

fun str_nat :: "nat \<Rightarrow> string" where
  "str_nat n =
     (if n < 10 then [''0123456789'' ! n]
      else str_nat (n div 10) @ [''0123456789'' ! (n mod 10)])"

declare str_nat.simps [simp del]

definition str_int :: "int \<Rightarrow> string" where
  "str_int i = (if i < 0 then ''-'' @ str_nat (nat (- i)) else str_nat (nat i))"

text \<open>
  Floats. The only floats of the validator are the quotients \<^verbatim>\<open>days / 365.25\<close> of a
  whole number of days; they are modelled as exact rationals. This agrees with the double
  in every test and message: 365.25 is a double and the division is correctly rounded,
  while the exact quotient of a whole number of days either equals the value it is
  compared with (the bounds 0.5, 1, 20 and 150, an integer for \<^verbatim>\<open>int\<close>) or differs from
  it, and from every tie of the one-decimal format, by more than 1/30000, far more than
  the rounding error of a double of that size.

  \<^verbatim>\<open>int(x)\<close> for a float: truncation towards zero.
\<close>

definition py_int :: "rat \<Rightarrow> int" where
  "py_int x = (if 0 \<le> x then \<lfloor>x\<rfloor> else \<lceil>x\<rceil>)"

text \<open>
  The format \<^verbatim>\<open>{x:.1f}\<close>: the sign, then the magnitude rounded to one decimal, ties to
  even; a negative value that rounds to zero prints as \<^verbatim>\<open>-0.0\<close>.
\<close>

definition round_half_even :: "rat \<Rightarrow> nat" where
  "round_half_even x =
     (let f = \<lfloor>x\<rfloor>; r = x - of_int f in
      nat (if r < 1 / 2 then f else if 1 / 2 < r then f + 1
           else if even f then f else f + 1))"

definition format_1f :: "rat \<Rightarrow> string" where
  "format_1f x =
     (let t = round_half_even (\<bar>x\<bar> * 10) in
      (if x < 0 then ''-'' else '''') @ str_nat (t div 10) @ ''.'' @ str_nat (t mod 10))"

text \<open>\<^verbatim>\<open>int(s)\<close> for the text of a regex group: surrounding whitespace is ignored.\<close>

definition int_of_str :: "string \<Rightarrow> nat" where
  "int_of_str s = foldl (\<lambda>n c. 10 * n + (ord c - 48)) 0 (strip s)"

subsection \<open>Regular expressions\<close>

text \<open>
  A pattern is a backtracking matcher: applied to the text at the current position it
  returns, in the order in which \<^verbatim>\<open>re\<close> tries them, every way of matching as a pair
  (matched text, text that remains).
\<close>

type_synonym matcher = "string \<Rightarrow> (string \<times> string) list"

definition cls :: "(char \<Rightarrow> bool) \<Rightarrow> matcher" where
  "cls P s = (case s of [] \<Rightarrow> [] | c # cs \<Rightarrow> if P c then [([c], cs)] else [])"

definition lit :: "char \<Rightarrow> matcher" where
  "lit a = cls (\<lambda>c. c = a)"

text \<open>A letter under \<^verbatim>\<open>re.IGNORECASE\<close>.\<close>

definition lit_i :: "char \<Rightarrow> matcher" where
  "lit_i a = cls (\<lambda>c. upper_char c = upper_char a)"

text \<open>A bracketed set such as \<^verbatim>\<open>[0-2]\<close>, given by its members.\<close>

definition one_of :: "string \<Rightarrow> matcher" where
  "one_of cs = cls (\<lambda>c. c \<in> set cs)"

definition seq :: "matcher \<Rightarrow> matcher \<Rightarrow> matcher" where
  "seq p q s = concat (map (\<lambda>(x, r). map (\<lambda>(y, r'). (x @ y, r')) (q r)) (p s))"

definition alt :: "matcher \<Rightarrow> matcher \<Rightarrow> matcher" where
  "alt p q s = p s @ q s"

text \<open>Greedy repetition of a character class, \<^verbatim>\<open>c*\<close> and \<^verbatim>\<open>c+\<close>: longest first.\<close>

definition star :: "(char \<Rightarrow> bool) \<Rightarrow> matcher" where
  "star P s = map (\<lambda>k. (take k s, drop k s)) (rev [0 ..< Suc (length (takeWhile P s))])"

definition plus :: "(char \<Rightarrow> bool) \<Rightarrow> matcher" where
  "plus P s = map (\<lambda>k. (take k s, drop k s)) (rev [1 ..< Suc (length (takeWhile P s))])"

definition opt_i :: "char \<Rightarrow> matcher" where
  "opt_i a s = lit_i a s @ [([], s)]"

text \<open>\<^verbatim>\<open>re.search(pattern, s)\<close> as a truth value: a match at some position 0..len(s).\<close>

definition re_search :: "matcher \<Rightarrow> string \<Rightarrow> bool" where
  "re_search p s = list_ex (\<lambda>i. p (drop i s) \<noteq> []) [0 ..< Suc (length s)]"

text \<open>\<^verbatim>\<open>re.sub(r"[^A-Z0-9]", "", s)\<close>.\<close>

definition sub_non_alnum :: "string \<Rightarrow> string" where
  "sub_non_alnum s =
     filter (\<lambda>c. (65 \<le> ord c \<and> ord c \<le> 90) \<or> (48 \<le> ord c \<and> ord c \<le> 57)) s"

subsection \<open>Exceptions\<close>

datatype py_error = ValueError | TypeError | AttributeError | KeyError | OverflowError

text \<open>Sequencing: an exception raised by the first step ends the run.\<close>

definition and_then :: "py_error + 'a \<Rightarrow> ('a \<Rightarrow> py_error + 'b) \<Rightarrow> py_error + 'b" where
  "and_then r f = (case r of Inl e \<Rightarrow> Inl e | Inr x \<Rightarrow> f x)"

subsection \<open>Dates and times (the datetime module)\<close>

record datetime =
  year :: nat
  month :: nat
  day :: nat
  hour :: nat
  minute :: nat
  second :: nat
  microsecond :: nat

definition is_leap :: "nat \<Rightarrow> bool" where
  "is_leap y = (y mod 4 = 0 \<and> (y mod 100 \<noteq> 0 \<or> y mod 400 = 0))"

text \<open>Entry 0 of the two month tables is a placeholder that is never read.\<close>

definition days_in_month :: "nat \<Rightarrow> nat \<Rightarrow> nat" where
  "days_in_month y m =
     (if m = 2 \<and> is_leap y then 29
      else [0, 31, 28, 31, 30, 31, 30, 31, 31, 30, 31, 30, 31] ! m)"

definition days_before_month :: "nat \<Rightarrow> nat \<Rightarrow> nat" where
  "days_before_month y m =
     [0, 0, 31, 59, 90, 120, 151, 181, 212, 243, 273, 304, 334] ! m
       + (if 2 < m \<and> is_leap y then 1 else 0)"

definition days_before_year :: "nat \<Rightarrow> int" where
  "days_before_year y =
     (let y' = int y - 1 in y' * 365 + y' div 4 - y' div 100 + y' div 400)"

definition ymd2ord :: "nat \<Rightarrow> nat \<Rightarrow> nat \<Rightarrow> int" where
  "ymd2ord y m d = days_before_year y + int (days_before_month y m) + int d"

definition toordinal :: "datetime \<Rightarrow> int" where
  "toordinal dt = ymd2ord (year dt) (month dt) (day dt)"

text \<open>The constructor's range checks (\<^verbatim>\<open>_check_date_fields\<close>).\<close>

definition check_date_fields :: "nat \<Rightarrow> nat \<Rightarrow> nat \<Rightarrow> py_error + unit" where
  "check_date_fields y m d =
     (if \<not> (1 \<le> y \<and> y \<le> 9999) then Inl ValueError
      else if \<not> (1 \<le> m \<and> m \<le> 12) then Inl ValueError
      else if \<not> (1 \<le> d \<and> d \<le> days_in_month y m) then Inl ValueError
      else Inr ())"

text \<open>Comparison of two datetimes: their field tuples, lexicographically.\<close>

fun lex_less :: "nat list \<Rightarrow> nat list \<Rightarrow> bool" where
  "lex_less [] ys = (ys \<noteq> [])"
| "lex_less (x # xs) [] = False"
| "lex_less (x # xs) (y # ys) = (x < y \<or> (x = y \<and> lex_less xs ys))"

definition fields_of :: "datetime \<Rightarrow> nat list" where
  "fields_of dt =
     [year dt, month dt, day dt, hour dt, minute dt, second dt, microsecond dt]"

definition datetime_less :: "datetime \<Rightarrow> datetime \<Rightarrow> bool" where
  "datetime_less a b = lex_less (fields_of a) (fields_of b)"

text \<open>\<^verbatim>\<open>(a - b).days\<close>: the difference, normalised so that the rest is within one day.\<close>

definition microseconds_of_day :: "datetime \<Rightarrow> int" where
  "microseconds_of_day dt =
     (int (second dt) + int (minute dt) * 60 + int (hour dt) * 3600) * 1000000
       + int (microsecond dt)"

definition timedelta_days :: "datetime \<Rightarrow> datetime \<Rightarrow> int" where
  "timedelta_days a b =
     (toordinal a - toordinal b)
       + (microseconds_of_day a - microseconds_of_day b) div 86400000000"

subsection \<open>datetime.strptime with the year-month-day format\<close>

text \<open>
  \<^verbatim>\<open>_strptime\<close> compiles the format \<^verbatim>\<open>%Y-%m-%d\<close> to the regular expression
  \<^verbatim>\<open>(?P<Y>\d\d\d\d)-(?P<m>1[0-2]|0[1-9]|[1-9])-(?P<d>3[0-1]|[1-2]\d|0[1-9]|[1-9]| [1-9])\<close>,
  takes its first match at the start of the text, and raises ValueError when there is
  none or when text remains after it. The groups are read with \<^verbatim>\<open>int\<close>, and building
  the date raises ValueError when the fields are out of range.
\<close>

definition group_Y :: matcher where
  "group_Y = seq (cls isdigit) (seq (cls isdigit) (seq (cls isdigit) (cls isdigit)))"

definition group_m :: matcher where
  "group_m =
     alt (seq (lit CHR ''1'') (one_of ''012''))
    (alt (seq (lit CHR ''0'') (one_of ''123456789''))
         (one_of ''123456789''))"

definition group_d :: matcher where
  "group_d =
     alt (seq (lit CHR ''3'') (one_of ''01''))
    (alt (seq (one_of ''12'') (cls isdigit))
    (alt (seq (lit CHR ''0'') (one_of ''123456789''))
    (alt (one_of ''123456789'')
         (seq (lit CHR '' '') (one_of ''123456789'')))))"

text \<open>Every match of the whole expression, in order: the three groups and the rest.\<close>

definition format_regex :: "string \<Rightarrow> (string \<times> string \<times> string \<times> string) list" where
  "format_regex s =
     [(Y, m, d, r5).
        (Y, r1) \<leftarrow> group_Y s, (h1, r2) \<leftarrow> lit CHR ''-'' r1,
        (m, r3) \<leftarrow> group_m r2, (h2, r4) \<leftarrow> lit CHR ''-'' r3,
        (d, r5) \<leftarrow> group_d r4]"

definition strptime :: "string \<Rightarrow> py_error + datetime" where
  "strptime date_string =
     (case format_regex date_string of
        [] \<Rightarrow> Inl ValueError
      | (Y, m, d, rest) # _ \<Rightarrow>
          if rest \<noteq> [] then Inl ValueError
          else
            (let y = int_of_str Y; mo = int_of_str m; dd = int_of_str d in
             case check_date_fields y mo dd of
               Inl e \<Rightarrow> Inl e
             | Inr _ \<Rightarrow>
                 Inr \<lparr>year = y, month = mo, day = dd,
                      hour = 0, minute = 0, second = 0, microsecond = 0\<rparr>))"

subsection \<open>The data model\<close>

text \<open>
  A field of the extraction result is a dict with the optional keys \<^verbatim>\<open>value\<close> (a string)
  and \<^verbatim>\<open>confidence\<close> (a number); \<open>None\<close> is an absent key. A dict of fields is an
  association list read with \<open>map_of\<close>: a key's first binding is the dict's.
\<close>

record field =
  field_value :: "string option"
  confidence :: "rat option"

type_synonym fields = "(string \<times> field) list"

record extraction_result =
  status :: "string option"
  document_type :: "string option"
  essential_fields :: "fields option"
  metadata :: "fields option"

text \<open>\<^verbatim>\<open>extraction_result.get(k, {})\<close> for the two dicts of fields.\<close>

definition get_dict :: "fields option \<Rightarrow> fields" where
  "get_dict d = (case d of None \<Rightarrow> [] | Some x \<Rightarrow> x)"

text \<open>\<^verbatim>\<open>d.get(k, {}).get("value")\<close> and \<^verbatim>\<open>d.get(k, {}).get("value", "")\<close>.\<close>

definition get_value :: "fields \<Rightarrow> string \<Rightarrow> string option" where
  "get_value d k = (case map_of d k of None \<Rightarrow> None | Some f \<Rightarrow> field_value f)"

definition get_value_str :: "fields \<Rightarrow> string \<Rightarrow> string" where
  "get_value_str d k = (case get_value d k of None \<Rightarrow> [] | Some v \<Rightarrow> v)"

text \<open>Truth values of an optional string and of an optional field dict.\<close>

definition truthy :: "string option \<Rightarrow> bool" where
  "truthy v = (case v of None \<Rightarrow> False | Some s \<Rightarrow> s \<noteq> [])"

definition truthy_field :: "field option \<Rightarrow> bool" where
  "truthy_field v =
     (case v of None \<Rightarrow> False
      | Some f \<Rightarrow> field_value f \<noteq> None \<or> confidence f \<noteq> None)"

definition dict_values :: "fields \<Rightarrow> field list" where
  "dict_values d = map snd (AList.clearjunk d)"

text \<open>An optional string inside an f-string.\<close>

definition fmt :: "string option \<Rightarrow> string" where
  "fmt v = (case v of None \<Rightarrow> ''None'' | Some s \<Rightarrow> s)"

record ValidationResult =
  test_name :: string
  passed :: bool
  message :: string
  severity :: string

text \<open>\<^verbatim>\<open>to_dict\<close>: the dict with keys test, passed, message, severity.\<close>

datatype result_dict =
  ResultDict (test: string) (passed_of: bool) (message_of: string) (severity_of: string)

definition to_dict :: "ValidationResult \<Rightarrow> result_dict" where
  "to_dict r = ResultDict (test_name r) (passed r) (message r) (severity r)"

record validator =
  results :: "ValidationResult list"

text \<open>\<^verbatim>\<open>DocumentValidator.__init__\<close>.\<close>

definition init :: validator where
  "init = \<lparr>results = []\<rparr>"

text \<open>
  The report: either the dict with \<^verbatim>\<open>validation_run: False\<close> and a message, or the full
  dict. Its keys \<^verbatim>\<open>passed\<close> and \<^verbatim>\<open>failed\<close> are the fields \<open>passed_tests\<close> and
  \<open>failed_tests\<close>.
\<close>

record report_body =
  total_tests :: nat
  passed_tests :: nat
  failed_tests :: nat
  errors :: nat
  warnings :: nat
  all_tests_passed :: bool
  test_results :: "result_dict list"
  error_details :: "result_dict list"
  warning_details :: "result_dict list"

datatype report = Skipped string | Report report_body

fun validation_run :: "report \<Rightarrow> bool" where
  "validation_run (Skipped m) = False"
| "validation_run (Report b) = True"

definition VALID_COUNTRIES :: "string list" where
  "VALID_COUNTRIES =
     [''USA'', ''US'', ''UNITED STATES'', ''UNITED STATES OF AMERICA'',
      ''UK'', ''GB'', ''UNITED KINGDOM'', ''GREAT BRITAIN'',
      ''CANADA'', ''CA'', ''CAN'', ''AUSTRALIA'', ''AU'', ''AUS'',
      ''INDIA'', ''IN'', ''IND'', ''CHINA'', ''CN'', ''CHN'',
      ''JAPAN'', ''JP'', ''JPN'', ''GERMANY'', ''DE'', ''DEU'',
      ''FRANCE'', ''FR'', ''FRA'', ''ITALY'', ''IT'', ''ITA'',
      ''SPAIN'', ''ES'', ''ESP'', ''MEXICO'', ''MX'', ''MEX'',
      ''BRAZIL'', ''BR'', ''BRA'', ''RUSSIA'', ''RU'', ''RUS'',
      ''SOUTH AFRICA'', ''ZA'', ''ZAF'']"

subsection \<open>The validator\<close>

text \<open>\<^verbatim>\<open>_add_result\<close>: the severity is optional and defaults to \<^verbatim>\<open>"error"\<close>.\<close>

definition add_result ::
  "validator \<Rightarrow> string \<Rightarrow> bool \<Rightarrow> string \<Rightarrow> string option \<Rightarrow> validator" where
  "add_result self name ok msg sev =
     self\<lparr>results := results self @
       [\<lparr>test_name = name, passed = ok, message = msg,
         severity = (case sev of None \<Rightarrow> ''error'' | Some s \<Rightarrow> s)\<rparr>]\<rparr>"

text \<open>\<^verbatim>\<open>_validate_date\<close>: ValueError and TypeError are caught, anything else propagates.\<close>

definition validate_date :: "string \<Rightarrow> py_error + (bool \<times> datetime option)" where
  "validate_date date_str =
     (case strptime date_str of
        Inr dt \<Rightarrow> Inr (True, Some dt)
      | Inl e \<Rightarrow> if e = ValueError \<or> e = TypeError then Inr (False, None) else Inl e)"

text \<open>\<^verbatim>\<open>self._validate_date(x) if x else (False, None)\<close>.\<close>

definition validate_date_if :: "string option \<Rightarrow> py_error + (bool \<times> datetime option)" where
  "validate_date_if x =
     (case x of None \<Rightarrow> Inr (False, None)
      | Some s \<Rightarrow> if s \<noteq> [] then validate_date s else Inr (False, None))"

text \<open>
  \<^verbatim>\<open>_validate_essential_fields\<close>, one definition for each of its three tests. An
  ordering comparison with \<^verbatim>\<open>None\<close> raises TypeError.
\<close>

definition check_full_name :: "fields \<Rightarrow> validator \<Rightarrow> validator" where
  "check_full_name ef self =
     (let full_name = strip (get_value_str ef ''full_name'') in
      if full_name \<noteq> [] then
        (let self1 = add_result self ''essential_fields.full_name.present'' True
                       (''Full name is present: '' @ full_name) None;
             name_parts = split full_name in
         if 2 \<le> length name_parts then
           add_result self1 ''essential_fields.full_name.format'' True
             ''Name has at least first and last name'' None
         else
           add_result self1 ''essential_fields.full_name.format'' False
             (''Name may be incomplete - only '' @ str_nat (length name_parts)
                @ '' part(s) found'')
             (Some ''warning''))
      else
        add_result self ''essential_fields.full_name.present'' False
          ''Full name is missing or empty'' None)"

definition check_date_of_birth ::
  "datetime \<Rightarrow> fields \<Rightarrow> validator \<Rightarrow> py_error + validator" where
  "check_date_of_birth now ef self =
     (let dob = get_value_str ef ''date_of_birth'' in
      if dob \<noteq> [] then
        and_then (validate_date dob) (\<lambda>(dob_valid, dob_date).
             if dob_valid then
               (case dob_date of
                  None \<Rightarrow> Inl TypeError
                | Some d \<Rightarrow>
                    (let self1 = add_result self ''essential_fields.date_of_birth.format'' True
                                   (''Date of birth is in valid format: '' @ dob) None;
                         self2 =
                           (if datetime_less d now then
                              add_result self1 ''essential_fields.date_of_birth.past'' True
                                ''Date of birth is in the past'' None
                            else
                              add_result self1 ''essential_fields.date_of_birth.past'' False
                                ''Date of birth is in the future - invalid'' None);
                         age = of_int (timedelta_days now d) / (365.25 :: rat)
                     in
                       if 1 \<le> age \<and> age \<le> 150 then
                         Inr (add_result self2 ''essential_fields.date_of_birth.reasonable'' True
                                (''Age is reasonable: ~'' @ str_int (py_int age) @ '' years'')
                                None)
                       else
                         Inr (add_result self2 ''essential_fields.date_of_birth.reasonable'' False
                                (''Age seems unreasonable: ~'' @ str_int (py_int age)
                                   @ '' years'')
                                None)))
             else
               Inr (add_result self ''essential_fields.date_of_birth.format'' False
                      (''Date of birth format is invalid: '' @ dob) None))
      else
        Inr (add_result self ''essential_fields.date_of_birth.present'' False
               ''Date of birth is missing'' None))"

definition check_sex :: "fields \<Rightarrow> validator \<Rightarrow> validator" where
  "check_sex ef self =
     (let sex = get_value_str ef ''sex'' in
      if sex \<in> set [''M'', ''F'', ''X''] then
        add_result self ''essential_fields.sex.valid'' True (''Sex is valid: '' @ sex) None
      else if sex \<noteq> [] then
        add_result self ''essential_fields.sex.valid'' False
          (''Sex value is invalid: '' @ sex @ '' (expected M, F, or X)'')
          (Some ''warning'')
      else
        add_result self ''essential_fields.sex.present'' False ''Sex is missing''
          (Some ''warning''))"

definition validate_essential_fields ::
  "datetime \<Rightarrow> fields \<Rightarrow> validator \<Rightarrow> py_error + validator" where
  "validate_essential_fields now ef self =
     and_then (check_date_of_birth now ef (check_full_name ef self))
       (\<lambda>self'. Inr (check_sex ef self'))"

text \<open>
  \<^verbatim>\<open>_validate_document_dates\<close>: the three dates are parsed first, then six tests run in
  order, each its own definition here. Comparing or subtracting \<^verbatim>\<open>None\<close> raises
  TypeError.
\<close>

definition test_issue_format ::
  "string option \<Rightarrow> bool \<Rightarrow> string \<Rightarrow> validator \<Rightarrow> validator" where
  "test_issue_format issue_date issue_valid doc_type self =
     (if truthy issue_date then
        (if issue_valid then
           add_result self (doc_type @ ''.date_of_issue.format'') True
             (''Date of issue is valid: '' @ fmt issue_date) None
         else
           add_result self (doc_type @ ''.date_of_issue.format'') False
             (''Date of issue format is invalid: '' @ fmt issue_date) None)
      else self)"

definition test_expiry_format ::
  "string option \<Rightarrow> bool \<Rightarrow> string \<Rightarrow> validator \<Rightarrow> validator" where
  "test_expiry_format expiry_date expiry_valid doc_type self =
     (if truthy expiry_date then
        (if expiry_valid then
           add_result self (doc_type @ ''.date_of_expiry.format'') True
             (''Date of expiry is valid: '' @ fmt expiry_date) None
         else
           add_result self (doc_type @ ''.date_of_expiry.format'') False
             (''Date of expiry format is invalid: '' @ fmt expiry_date) None)
      else self)"

definition test_expiry_after_issue ::
  "string option \<Rightarrow> string option \<Rightarrow> bool \<times> datetime option \<Rightarrow> bool \<times> datetime option
     \<Rightarrow> string \<Rightarrow> validator \<Rightarrow> py_error + validator" where
  "test_expiry_after_issue issue_date expiry_date issue expiry doc_type self =
     (case (issue, expiry) of
        ((issue_valid, issue_dt), (expiry_valid, expiry_dt)) \<Rightarrow>
          if issue_valid \<and> expiry_valid then
            (case (expiry_dt, issue_dt) of
               (Some e, Some i) \<Rightarrow>
                 if datetime_less i e then
                   Inr (add_result self (doc_type @ ''.dates.expiry_after_issue'') True
                          ''Expiry date is after issue date'' None)
                 else
                   Inr (add_result self (doc_type @ ''.dates.expiry_after_issue'') False
                          (''Expiry date ('' @ fmt expiry_date
                             @ '') is not after issue date ('' @ fmt issue_date @ '')'')
                          None)
             | _ \<Rightarrow> Inl TypeError)
          else Inr self)"

definition test_issue_after_birth ::
  "string option \<Rightarrow> string option \<Rightarrow> bool \<times> datetime option \<Rightarrow> bool \<times> datetime option
     \<Rightarrow> string \<Rightarrow> validator \<Rightarrow> py_error + validator" where
  "test_issue_after_birth issue_date dob issue birth doc_type self =
     (case (issue, birth) of
        ((issue_valid, issue_dt), (dob_valid, dob_dt)) \<Rightarrow>
          if issue_valid \<and> dob_valid then
            (case (issue_dt, dob_dt) of
               (Some i, Some b) \<Rightarrow>
                 if datetime_less b i then
                   Inr (add_result self (doc_type @ ''.dates.issue_after_birth'') True
                          ''Issue date is after date of birth'' None)
                 else
                   Inr (add_result self (doc_type @ ''.dates.issue_after_birth'') False
                          (''Issue date ('' @ fmt issue_date
                             @ '') is before date of birth ('' @ fmt dob @ '')'')
                          None)
             | _ \<Rightarrow> Inl TypeError)
          else Inr self)"

definition test_validity_period ::
  "bool \<times> datetime option \<Rightarrow> bool \<times> datetime option \<Rightarrow> string \<Rightarrow> validator
     \<Rightarrow> py_error + validator" where
  "test_validity_period issue expiry doc_type self =
     (case (issue, expiry) of
        ((issue_valid, issue_dt), (expiry_valid, expiry_dt)) \<Rightarrow>
          if issue_valid \<and> expiry_valid then
            (case (expiry_dt, issue_dt) of
               (Some e, Some i) \<Rightarrow>
                 (let validity_years = of_int (timedelta_days e i) / (365.25 :: rat) in
                  if 0.5 \<le> validity_years \<and> validity_years \<le> 20 then
                    Inr (add_result self (doc_type @ ''.dates.validity_period'') True
                           (''Document validity period is reasonable: ~''
                              @ format_1f validity_years @ '' years'')
                           None)
                  else
                    Inr (add_result self (doc_type @ ''.dates.validity_period'') False
                           (''Document validity period seems unusual: ~''
                              @ format_1f validity_years @ '' years'')
                           (Some ''warning'')))
             | _ \<Rightarrow> Inl TypeError)
          else Inr self)"

definition test_not_expired ::
  "datetime \<Rightarrow> string option \<Rightarrow> bool \<times> datetime option \<Rightarrow> string \<Rightarrow> validator
     \<Rightarrow> py_error + validator" where
  "test_not_expired now expiry_date expiry doc_type self =
     (case expiry of
        (expiry_valid, expiry_dt) \<Rightarrow>
          if expiry_valid then
            (case expiry_dt of
               Some e \<Rightarrow>
                 if datetime_less now e then
                   Inr (add_result self (doc_type @ ''.dates.not_expired'') True
                          (''Document is not expired (expires '' @ fmt expiry_date @ '')'')
                          None)
                 else
                   Inr (add_result self (doc_type @ ''.dates.not_expired'') False
                          (''Document has expired (expired on '' @ fmt expiry_date @ '')'')
                          (Some ''warning''))
             | None \<Rightarrow> Inl TypeError)
          else Inr self)"

definition validate_document_dates ::
  "datetime \<Rightarrow> string option \<Rightarrow> string option \<Rightarrow> string option \<Rightarrow> string \<Rightarrow> validator
     \<Rightarrow> py_error + validator" where
  "validate_document_dates now issue_date expiry_date dob doc_type self =
     and_then (validate_date_if issue_date) (\<lambda>issue.
     and_then (validate_date_if expiry_date) (\<lambda>expiry.
     and_then (validate_date_if dob) (\<lambda>birth.
       (let self1 = test_issue_format issue_date (fst issue) doc_type self;
            self2 = test_expiry_format expiry_date (fst expiry) doc_type self1
        in
          and_then (test_expiry_after_issue issue_date expiry_date issue expiry doc_type self2)
            (\<lambda>self3.
          and_then (test_issue_after_birth issue_date dob issue birth doc_type self3)
            (\<lambda>self4.
          and_then (test_validity_period issue expiry doc_type self4)
            (\<lambda>self5.
          test_not_expired now expiry_date expiry doc_type self5)))))))"

text \<open>\<^verbatim>\<open>_validate_passport\<close>.\<close>

definition check_passport_number :: "fields \<Rightarrow> validator \<Rightarrow> validator" where
  "check_passport_number md self =
     (let passport_num = get_value_str md ''passport_number'' in
      if passport_num \<noteq> [] then
        (let clean_num = sub_non_alnum (upper passport_num) in
         if 6 \<le> length clean_num \<and> length clean_num \<le> 15 then
           add_result self ''passport.passport_number.length'' True
             (''Passport number length is valid: '' @ str_nat (length clean_num)
                @ '' characters'')
             None
         else
           add_result self ''passport.passport_number.length'' False
             (''Passport number length is unusual: '' @ str_nat (length clean_num)
                @ '' characters (expected 6-15)'')
             (Some ''warning''))
      else
        add_result self ''passport.passport_number.present'' False
          ''Passport number is missing'' None)"

definition check_country_of_issue :: "fields \<Rightarrow> validator \<Rightarrow> validator" where
  "check_country_of_issue md self =
     (let country = get_value_str md ''country_of_issue'' in
      if country \<noteq> [] then
        (if upper country \<in> set VALID_COUNTRIES then
           add_result self ''passport.country_of_issue.valid'' True
             (''Country of issue is valid: '' @ country) None
         else
           add_result self ''passport.country_of_issue.valid'' False
             (''Country of issue may be invalid or unrecognized: '' @ country)
             (Some ''warning''))
      else
        add_result self ''passport.country_of_issue.present'' False
          ''Country of issue is missing'' None)"

definition check_nationality :: "fields \<Rightarrow> validator \<Rightarrow> validator" where
  "check_nationality md self =
     (let nationality = get_value_str md ''nationality'' in
      if nationality \<noteq> [] then
        (if upper nationality \<in> set VALID_COUNTRIES then
           add_result self ''passport.nationality.valid'' True
             (''Nationality is valid: '' @ nationality) None
         else
           add_result self ''passport.nationality.valid'' False
             (''Nationality may be invalid or unrecognized: '' @ nationality)
             (Some ''warning''))
      else self)"

definition validate_passport ::
  "datetime \<Rightarrow> fields \<Rightarrow> fields \<Rightarrow> validator \<Rightarrow> py_error + validator" where
  "validate_passport now ef md self =
     validate_document_dates now
       (get_value md ''date_of_issue'') (get_value md ''date_of_expiry'')
       (get_value ef ''date_of_birth'') ''passport''
       (check_nationality md (check_country_of_issue md (check_passport_number md self)))"

text \<open>\<^verbatim>\<open>_validate_license\<close>. The height patterns are
  \<^verbatim>\<open>\d+\'\s*\d+\"\<close>, \<^verbatim>\<open>\d+\s*ft\s*\d*\s*in\<close> and \<^verbatim>\<open>\d+\s*cm\<close>; the weight patterns are
  \<^verbatim>\<open>\d+\s*lbs?\<close> and \<^verbatim>\<open>\d+\s*kg\<close>; all are searched with \<^verbatim>\<open>re.IGNORECASE\<close>.
  \<open>CHR 0x27\<close> is the apostrophe and \<open>CHR 0x22\<close> the double quote.\<close>

definition height_patterns :: "matcher list" where
  "height_patterns =
     [seq (plus isdigit) (seq (lit (CHR 0x27)) (seq (star isspace)
        (seq (plus isdigit) (lit (CHR 0x22))))),
      seq (plus isdigit) (seq (star isspace) (seq (lit_i CHR ''f'') (seq (lit_i CHR ''t'')
        (seq (star isspace) (seq (star isdigit) (seq (star isspace)
        (seq (lit_i CHR ''i'') (lit_i CHR ''n'')))))))),
      seq (plus isdigit) (seq (star isspace) (seq (lit_i CHR ''c'') (lit_i CHR ''m'')))]"

definition weight_patterns :: "matcher list" where
  "weight_patterns =
     [seq (plus isdigit) (seq (star isspace) (seq (lit_i CHR ''l'') (seq (lit_i CHR ''b'')
        (opt_i CHR ''s'')))),
      seq (plus isdigit) (seq (star isspace) (seq (lit_i CHR ''k'') (lit_i CHR ''g'')))]"

definition check_dl_number :: "fields \<Rightarrow> validator \<Rightarrow> validator" where
  "check_dl_number md self =
     (let dl_number = get_value_str md ''dl_number'' in
      if dl_number \<noteq> [] then
        (let clean_num = sub_non_alnum (upper dl_number) in
         if 5 \<le> length clean_num \<and> length clean_num \<le> 20 then
           add_result self ''license.dl_number.length'' True
             (''License number length is valid: '' @ str_nat (length clean_num)
                @ '' characters'')
             None
         else
           add_result self ''license.dl_number.length'' False
             (''License number length is unusual: '' @ str_nat (length clean_num)
                @ '' characters'')
             (Some ''warning''))
      else
        add_result self ''license.dl_number.present'' False
          ''License number is missing'' None)"

definition check_address :: "fields \<Rightarrow> validator \<Rightarrow> validator" where
  "check_address ef self =
     (let address = get_value_str ef ''address'' in
      if address \<noteq> [] \<and> 5 < length (strip address) then
        add_result self ''license.address.present'' True
          ''Address is present and appears complete'' None
      else
        add_result self ''license.address.present'' False
          ''Address is missing or incomplete'' None)"

definition check_height :: "fields \<Rightarrow> validator \<Rightarrow> validator" where
  "check_height md self =
     (let height = get_value_str md ''height'' in
      if height \<noteq> [] then
        (if list_ex (\<lambda>pattern. re_search pattern height) height_patterns then
           add_result self ''license.height.format'' True
             (''Height format is valid: '' @ height) None
         else
           add_result self ''license.height.format'' False
             (''Height format may be invalid: '' @ height) (Some ''warning''))
      else self)"

definition check_weight :: "fields \<Rightarrow> validator \<Rightarrow> validator" where
  "check_weight md self =
     (let weight = get_value_str md ''weight'' in
      if weight \<noteq> [] then
        (if list_ex (\<lambda>pattern. re_search pattern weight) weight_patterns then
           add_result self ''license.weight.format'' True
             (''Weight format is valid: '' @ weight) None
         else
           add_result self ''license.weight.format'' False
             (''Weight format may be invalid: '' @ weight) (Some ''warning''))
      else self)"

definition validate_license ::
  "datetime \<Rightarrow> fields \<Rightarrow> fields \<Rightarrow> validator \<Rightarrow> py_error + validator" where
  "validate_license now ef md self =
     validate_document_dates now
       (get_value md ''date_of_issue'') (get_value md ''date_of_expiry'')
       (get_value ef ''date_of_birth'') ''license''
       (check_weight md (check_height md (check_address ef (check_dl_number md self))))"

text \<open>\<^verbatim>\<open>_validate_other_id\<close>.\<close>

definition check_metadata_present :: "fields \<Rightarrow> validator \<Rightarrow> validator" where
  "check_metadata_present md self =
     (if md \<noteq> [] \<and> list_ex (\<lambda>v. truthy (field_value v)) (dict_values md) then
        add_result self ''other_id.metadata.present'' True
          ''Some metadata fields were successfully extracted'' None
      else
        add_result self ''other_id.metadata.present'' False
          ''No metadata could be extracted from this ID'' (Some ''warning''))"

definition check_id_type :: "fields \<Rightarrow> validator \<Rightarrow> validator" where
  "check_id_type md self =
     (let id_type = get_value_str md ''id_type'' in
      if id_type \<noteq> [] then
        add_result self ''other_id.id_type.identified'' True
          (''ID type was identified: '' @ id_type) None
      else
        add_result self ''other_id.id_type.identified'' False
          ''ID type could not be identified'' (Some ''warning''))"

definition validate_other_id ::
  "datetime \<Rightarrow> fields \<Rightarrow> fields \<Rightarrow> validator \<Rightarrow> py_error + validator" where
  "validate_other_id now ef md self =
     (let self2 = check_id_type md (check_metadata_present md self) in
      if truthy_field (map_of md ''date_of_issue'')
           \<or> truthy_field (map_of md ''date_of_expiry'')
      then
        validate_document_dates now
          (get_value md ''date_of_issue'') (get_value md ''date_of_expiry'')
          (get_value ef ''date_of_birth'') ''other_id'' self2
      else Inr self2)"

text \<open>
  \<^verbatim>\<open>validate\<close>: clears \<^verbatim>\<open>self.results\<close>, returns the skip dict unless the status is
  \<^verbatim>\<open>"success"\<close>, runs the common tests, then the tests of the document type, and
  compiles the report. The result is the report together with the validator as the call
  leaves it.
\<close>

definition compile_results :: "ValidationResult list \<Rightarrow> report_body" where
  "compile_results rs =
     (let passed_n = length (filter (\<lambda>r. passed r) rs);
          failed_n = length (filter (\<lambda>r. \<not> passed r) rs);
          errs = filter (\<lambda>r. \<not> passed r \<and> severity r = ''error'') rs;
          warns = filter (\<lambda>r. \<not> passed r \<and> severity r = ''warning'') rs
      in
        \<lparr>total_tests = length rs,
         passed_tests = passed_n,
         failed_tests = failed_n,
         errors = length errs,
         warnings = length warns,
         all_tests_passed = (failed_n = 0),
         test_results = map to_dict rs,
         error_details = map to_dict errs,
         warning_details = map to_dict warns\<rparr>)"

definition validate ::
  "datetime \<Rightarrow> extraction_result \<Rightarrow> validator \<Rightarrow> py_error + (report \<times> validator)" where
  "validate now extraction_result self0 =
     (let self = self0\<lparr>results := []\<rparr> in
      if status extraction_result \<noteq> Some ''success'' then
        Inr (Skipped ''Validation skipped - extraction was not successful'', self)
      else
        (let doc_type = document_type extraction_result;
             ef = get_dict (essential_fields extraction_result);
             md = get_dict (metadata extraction_result)
         in
           and_then (validate_essential_fields now ef self) (\<lambda>self1.
           and_then
             (if doc_type = Some ''passport'' then validate_passport now ef md self1
              else if doc_type = Some ''drivers_license'' then validate_license now ef md self1
              else if doc_type = Some ''other_id'' then validate_other_id now ef md self1
              else Inr self1)
             (\<lambda>self2. Inr (Report (compile_results (results self2)), self2)))))"

subsection \<open>What a run appends\<close>

text \<open>
  Notions used to state the properties. \<open>emitted\<close> reads the outcome buffer of a finished
  step. An outcome is \<open>well_formed\<close> when its severity is one of the two severities and a
  passing outcome has the default one. A step is \<open>sound\<close> for a list of test names when,
  from any validator, it returns normally, appends to the buffer the outcomes it appends
  from a fresh validator, and these are well formed and named from the list.
\<close>

definition emitted :: "py_error + validator \<Rightarrow> ValidationResult list" where
  "emitted r = (case r of Inl e \<Rightarrow> [] | Inr v \<Rightarrow> results v)"

definition well_formed :: "ValidationResult \<Rightarrow> bool" where
  "well_formed r =
     ((severity r = ''error'' \<or> severity r = ''warning'')
      \<and> (passed r \<longrightarrow> severity r = ''error''))"

definition outcome :: "string \<Rightarrow> bool \<Rightarrow> string \<Rightarrow> string option \<Rightarrow> ValidationResult" where
  "outcome name ok msg sev =
     \<lparr>test_name = name, passed = ok, message = msg,
      severity = (case sev of None \<Rightarrow> ''error'' | Some s \<Rightarrow> s)\<rparr>"

definition sound :: "string list \<Rightarrow> (validator \<Rightarrow> py_error + validator) \<Rightarrow> bool" where
  "sound names f =
     ((\<forall>self. f self = Inr (self\<lparr>results := results self @ emitted (f init)\<rparr>))
      \<and> list_all (\<lambda>r. well_formed r \<and> test_name r \<in> set names) (emitted (f init)))"

definition then_do ::
  "(validator \<Rightarrow> py_error + validator) \<Rightarrow> (validator \<Rightarrow> py_error + validator)
     \<Rightarrow> validator \<Rightarrow> py_error + validator" where
  "then_do f g self = and_then (f self) g"

definition parsed :: "bool \<times> datetime option \<Rightarrow> bool" where
  "parsed p = (p = (False, None) \<or> (\<exists>d. p = (True, Some d)))"

definition date_names :: "string \<Rightarrow> string list" where
  "date_names doc_type =
     [doc_type @ ''.date_of_issue.format'', doc_type @ ''.date_of_expiry.format'',
      doc_type @ ''.dates.expiry_after_issue'', doc_type @ ''.dates.issue_after_birth'',
      doc_type @ ''.dates.validity_period'', doc_type @ ''.dates.not_expired'']"

definition essential_names :: "string list" where
  "essential_names =
     [''essential_fields.full_name.present'', ''essential_fields.full_name.format'',
      ''essential_fields.date_of_birth.format'', ''essential_fields.date_of_birth.past'',
      ''essential_fields.date_of_birth.reasonable'',
      ''essential_fields.date_of_birth.present'',
      ''essential_fields.sex.valid'', ''essential_fields.sex.present'']"

definition passport_names :: "string list" where
  "passport_names =
     [''passport.passport_number.length'', ''passport.passport_number.present'',
      ''passport.country_of_issue.valid'', ''passport.country_of_issue.present'',
      ''passport.nationality.valid''] @ date_names ''passport''"

definition license_names :: "string list" where
  "license_names =
     [''license.dl_number.length'', ''license.dl_number.present'',
      ''license.address.present'', ''license.height.format'', ''license.weight.format'']
     @ date_names ''license''"

definition other_id_names :: "string list" where
  "other_id_names =
     [''other_id.metadata.present'', ''other_id.id_type.identified'']
     @ date_names ''other_id''"

definition type_specific ::
  "datetime \<Rightarrow> string option \<Rightarrow> fields \<Rightarrow> fields \<Rightarrow> validator \<Rightarrow> py_error + validator" where
  "type_specific now doc_type ef md =
     (if doc_type = Some ''passport'' then validate_passport now ef md
      else if doc_type = Some ''drivers_license'' then validate_license now ef md
      else if doc_type = Some ''other_id'' then validate_other_id now ef md
      else Inr)"

definition run_results :: "datetime \<Rightarrow> extraction_result \<Rightarrow> ValidationResult list" where
  "run_results now er =
     (let ef = get_dict (essential_fields er); md = get_dict (metadata er) in
      emitted (validate_essential_fields now ef init)
        @ emitted (type_specific now (document_type er) ef md init))"

subsection \<open>Concrete inputs\<close>

text \<open>A clock reading (1 June 2024, noon) and extraction results used as examples.\<close>

definition example_now :: datetime where
  "example_now =
     \<lparr>year = 2024, month = 6, day = 1, hour = 12, minute = 0, second = 0, microsecond = 0\<rparr>"

definition str_field :: "string \<Rightarrow> field" where
  "str_field s = \<lparr>field_value = Some s, confidence = None\<rparr>"

definition example_failed :: extraction_result where
  "example_failed =
     \<lparr>status = Some ''error'', document_type = None,
      essential_fields = None, metadata = None\<rparr>"

text \<open>
  A driver's license whose expiry date precedes its issue date, with a one-word name
  and a sex value outside M, F, X.
\<close>

definition example_license :: extraction_result where
  "example_license =
     \<lparr>status = Some ''success'', document_type = Some ''drivers_license'',
      essential_fields = Some
        [(''full_name'', str_field ''Madonna''),
         (''date_of_birth'', str_field ''1990-05-15''),
         (''sex'', str_field ''Male''),
         (''address'', str_field ''12 Main Street'')],
      metadata = Some
        [(''dl_number'', str_field ''D123-4567''),
         (''height'', str_field ''170 cm''),
         (''date_of_issue'', str_field ''2020-01-01''),
         (''date_of_expiry'', str_field ''2019-01-01'')]\<rparr>"

text \<open>
  A passport result with adversarial strings: a blank name, an oversized number in place
  of the date of birth, a sex field without a value, a date that is not in the calendar.
\<close>

definition example_adversarial :: extraction_result where
  "example_adversarial =
     \<lparr>status = Some ''success'', document_type = Some ''passport'',
      essential_fields = Some
        [(''full_name'', str_field ''   ''),
         (''date_of_birth'', str_field ''99999999999999999999-99-99''),
         (''sex'', \<lparr>field_value = None, confidence = Some 2\<rparr>)],
      metadata = Some
        [(''passport_number'', str_field ''123456789012345678901234567890''),
         (''date_of_issue'', str_field ''2023-02-30''),
         (''date_of_expiry'', str_field ''not a date'')]\<rparr>"

subsection \<open>The grammar of dates\<close>

text \<open>
  The date of a parsed string: \<^verbatim>\<open>strptime\<close> sets the time of day to midnight.
\<close>

definition midnight :: "nat \<Rightarrow> nat \<Rightarrow> nat \<Rightarrow> datetime" where
  "midnight y m d =
     \<lparr>year = y, month = m, day = d, hour = 0, minute = 0, second = 0, microsecond = 0\<rparr>"

text \<open>
  The texts the month group and the day group of the regular expression can match: a
  month from 1 to 12 with or without a leading zero; a day from 1 to 31 with or without a
  leading zero, or a single digit after a space.
\<close>

definition month_texts :: "string list" where
  "month_texts =
     [''01'', ''1'', ''02'', ''2'', ''03'', ''3'', ''04'', ''4'', ''05'', ''5'',
      ''06'', ''6'', ''07'', ''7'', ''08'', ''8'', ''09'', ''9'', ''10'', ''11'', ''12'']"

definition day_texts :: "string list" where
  "day_texts =
     [''01'', ''1'', '' 1'', ''02'', ''2'', '' 2'', ''03'', ''3'', '' 3'',
      ''04'', ''4'', '' 4'', ''05'', ''5'', '' 5'', ''06'', ''6'', '' 6'',
      ''07'', ''7'', '' 7'', ''08'', ''8'', '' 8'', ''09'', ''9'', '' 9'',
      ''10'', ''11'', ''12'', ''13'', ''14'', ''15'', ''16'', ''17'', ''18'', ''19'',
      ''20'', ''21'', ''22'', ''23'', ''24'', ''25'', ''26'', ''27'', ''28'', ''29'',
      ''30'', ''31'']"

text \<open>
  The strict grammar in the words of the specification: exactly YYYY-MM-DD, a 4-digit
  year, a 2-digit zero-padded month and a 2-digit zero-padded day.
\<close>

definition yyyy_mm_dd :: "string \<Rightarrow> bool" where
  "yyyy_mm_dd s =
     (length s = 10 \<and> list_all isdigit (take 4 s) \<and> s ! 4 = CHR ''-''
      \<and> list_all isdigit (take 2 (drop 5 s)) \<and> s ! 7 = CHR ''-''
      \<and> list_all isdigit (drop 8 s))"

section \<open>Properties\<close>

subsection \<open>Every step returns and appends well-formed outcomes\<close>

lemma and_then_Inr [simp]: "and_then (Inr x) f = f x"
  by (simp add: and_then_def)

lemma and_then_Inl [simp]: "and_then (Inl e) f = Inl e"
  by (simp add: and_then_def)

lemma add_result_outcome:
  "add_result self name ok msg sev = self\<lparr>results := results self @ [outcome name ok msg sev]\<rparr>"
  by (simp add: add_result_def outcome_def)

lemma test_name_outcome [simp]: "test_name (outcome name ok msg sev) = name"
  by (simp add: outcome_def)

lemma well_formed_default [simp]: "well_formed (outcome name ok msg None)"
  by (simp add: outcome_def well_formed_def)

lemma well_formed_warning [simp]: "well_formed (outcome name False msg (Some ''warning''))"
  by (simp add: outcome_def well_formed_def)

lemmas sound_unfold = sound_def emitted_def init_def add_result_outcome Let_def

lemma sound_full_name:
  "sound [''essential_fields.full_name.present'', ''essential_fields.full_name.format'']
     (\<lambda>self. Inr (check_full_name ef self))"
  by (simp add: check_full_name_def sound_unfold)

lemma sound_sex:
  "sound [''essential_fields.sex.valid'', ''essential_fields.sex.present'']
     (\<lambda>self. Inr (check_sex ef self))"
  by (simp add: check_sex_def sound_unfold)

lemma check_date_fields_error: "check_date_fields y m d = Inl e \<Longrightarrow> e = ValueError"
  by (simp add: check_date_fields_def split: if_splits)

lemma strptime_error: "strptime s = Inl e \<Longrightarrow> e = ValueError"
  by (auto simp: strptime_def Let_def split: list.splits prod.splits if_splits sum.splits
      dest: check_date_fields_error)

lemma validate_date_cases:
  "validate_date s =
     (case strptime s of Inl e \<Rightarrow> Inr (False, None) | Inr dt \<Rightarrow> Inr (True, Some dt))"
  by (auto simp: validate_date_def split: sum.splits dest: strptime_error)

lemma validate_date_returns:
  "validate_date s = Inr (False, None) \<or> (\<exists>d. validate_date s = Inr (True, Some d))"
  by (simp add: validate_date_cases split: sum.splits)

lemma validate_date_if_returns:
  "validate_date_if x = Inr (False, None) \<or> (\<exists>d. validate_date_if x = Inr (True, Some d))"
  using validate_date_returns by (simp add: validate_date_if_def split: option.splits)

lemma sound_date_of_birth:
  "sound [''essential_fields.date_of_birth.format'', ''essential_fields.date_of_birth.past'',
          ''essential_fields.date_of_birth.reasonable'',
          ''essential_fields.date_of_birth.present'']
     (check_date_of_birth now ef)"
proof (cases "get_value_str ef ''date_of_birth'' = []")
  case True
  then show ?thesis by (simp add: check_date_of_birth_def sound_unfold)
next
  case False
  from validate_date_returns [of "get_value_str ef ''date_of_birth''"] show ?thesis
  proof
    assume "validate_date (get_value_str ef ''date_of_birth'') = Inr (False, None)"
    with False show ?thesis by (simp add: check_date_of_birth_def sound_unfold)
  next
    assume "\<exists>d. validate_date (get_value_str ef ''date_of_birth'') = Inr (True, Some d)"
    then obtain d where "validate_date (get_value_str ef ''date_of_birth'') = Inr (True, Some d)" ..
    with False show ?thesis
      by (cases "datetime_less d now";
          cases "1 \<le> rat_of_int (timedelta_days now d) / 365.25
                 \<and> rat_of_int (timedelta_days now d) / 365.25 \<le> 150")
         (simp_all only: check_date_of_birth_def sound_unfold and_then_Inr prod.case
            option.case if_True if_False simp_thms, simp_all)
  qed
qed

lemma soundI:
  assumes "\<And>self. f self = Inr (self\<lparr>results := results self @ es\<rparr>)"
    and "list_all (\<lambda>r. well_formed r \<and> test_name r \<in> set names) es"
  shows "sound names f"
proof -
  have "emitted (f init) = es"
    by (simp add: assms(1) emitted_def init_def)
  with assms show ?thesis by (simp add: sound_def)
qed

lemma sound_run:
  "sound names f \<Longrightarrow> f self = Inr (self\<lparr>results := results self @ emitted (f init)\<rparr>)"
  unfolding sound_def by blast

lemma sound_all:
  "sound names f \<Longrightarrow>
     list_all (\<lambda>r. well_formed r \<and> test_name r \<in> set names) (emitted (f init))"
  unfolding sound_def by blast

lemma sound_mono: "sound A f \<Longrightarrow> set A \<subseteq> set B \<Longrightarrow> sound B f"
  unfolding sound_def list_all_iff by blast

lemma then_do_run:
  assumes f: "sound A f" and g: "sound B g"
  shows "then_do f g self
           = Inr (self\<lparr>results := results self @ (emitted (f init) @ emitted (g init))\<rparr>)"
  by (simp add: then_do_def sound_run [OF f, of self]
      sound_run [OF g, of "self\<lparr>results := results self @ emitted (f init)\<rparr>"])

lemma emitted_then_do:
  "sound A f \<Longrightarrow> sound B g \<Longrightarrow> emitted (then_do f g init) = emitted (f init) @ emitted (g init)"
  by (simp add: then_do_run [of A f B g init]) (simp add: emitted_def init_def)

lemma sound_then_do:
  assumes f: "sound A f" and g: "sound B g"
  shows "sound (A @ B) (then_do f g)"
proof (rule soundI)
  show "then_do f g self
          = Inr (self\<lparr>results := results self @ (emitted (f init) @ emitted (g init))\<rparr>)"
    for self
    by (rule then_do_run [OF f g])
  show "list_all (\<lambda>r. well_formed r \<and> test_name r \<in> set (A @ B))
          (emitted (f init) @ emitted (g init))"
    using sound_all [OF f] sound_all [OF g] by (auto simp: list_all_iff)
qed

lemma sound_skip: "sound names Inr"
  by (rule soundI [where es = "[]"]) auto

lemma emitted_Inr [simp]: "emitted (Inr v) = results v"
  by (simp add: emitted_def)

lemma sound_issue_format:
  "sound [doc_type @ ''.date_of_issue.format'']
     (\<lambda>self. Inr (test_issue_format issue_date b doc_type self))"
  by (simp add: test_issue_format_def sound_unfold)

lemma sound_expiry_format:
  "sound [doc_type @ ''.date_of_expiry.format'']
     (\<lambda>self. Inr (test_expiry_format expiry_date b doc_type self))"
  by (simp add: test_expiry_format_def sound_unfold)

lemma sound_expiry_after_issue:
  "parsed issue \<Longrightarrow> parsed expiry \<Longrightarrow>
     sound [doc_type @ ''.dates.expiry_after_issue'']
       (test_expiry_after_issue issue_date expiry_date issue expiry doc_type)"
  by (auto simp: parsed_def test_expiry_after_issue_def sound_unfold)

lemma sound_issue_after_birth:
  "parsed issue \<Longrightarrow> parsed birth \<Longrightarrow>
     sound [doc_type @ ''.dates.issue_after_birth'']
       (test_issue_after_birth issue_date dob issue birth doc_type)"
  by (auto simp: parsed_def test_issue_after_birth_def sound_unfold)

lemma sound_not_expired:
  "parsed expiry \<Longrightarrow>
     sound [doc_type @ ''.dates.not_expired'']
       (test_not_expired now expiry_date expiry doc_type)"
  by (auto simp: parsed_def test_not_expired_def sound_unfold)

lemma sound_validity_period:
  assumes "parsed issue" "parsed expiry"
  shows "sound [doc_type @ ''.dates.validity_period'']
           (test_validity_period issue expiry doc_type)"
proof (cases "fst issue \<and> fst expiry")
  case False
  with assms show ?thesis
    by (auto simp: parsed_def test_validity_period_def sound_unfold)
next
  case True
  with assms obtain i e where ie: "issue = (True, Some i)" "expiry = (True, Some e)"
    by (auto simp: parsed_def)
  show ?thesis
    by (cases "0.5 \<le> rat_of_int (timedelta_days e i) / 365.25
                 \<and> rat_of_int (timedelta_days e i) / 365.25 \<le> 20")
       (simp_all only: ie test_validity_period_def sound_unfold prod.case option.case
          if_True if_False simp_thms, simp_all)
qed

lemma parsed_validate_date_if: "\<exists>p. validate_date_if x = Inr p \<and> parsed p"
  using validate_date_if_returns [of x] by (auto simp: parsed_def)

lemma validate_document_dates_eq:
  assumes "validate_date_if issue_date = Inr issue"
    and "validate_date_if expiry_date = Inr expiry"
    and "validate_date_if dob = Inr birth"
  shows "validate_document_dates now issue_date expiry_date dob doc_type
    = then_do (\<lambda>self. Inr (test_issue_format issue_date (fst issue) doc_type self))
     (then_do (\<lambda>self. Inr (test_expiry_format expiry_date (fst expiry) doc_type self))
     (then_do (test_expiry_after_issue issue_date expiry_date issue expiry doc_type)
     (then_do (test_issue_after_birth issue_date dob issue birth doc_type)
     (then_do (test_validity_period issue expiry doc_type)
              (test_not_expired now expiry_date expiry doc_type)))))"
  by (simp add: fun_eq_iff validate_document_dates_def then_do_def [abs_def] assms Let_def)

lemma sound_document_dates:
  "sound (date_names doc_type)
     (validate_document_dates now issue_date expiry_date dob doc_type)"
proof -
  obtain issue expiry birth where
    v: "validate_date_if issue_date = Inr issue" "validate_date_if expiry_date = Inr expiry"
       "validate_date_if dob = Inr birth"
    and p: "parsed issue" "parsed expiry" "parsed birth"
    using parsed_validate_date_if by blast
  have "sound ([doc_type @ ''.date_of_issue.format''] @ [doc_type @ ''.date_of_expiry.format'']
      @ [doc_type @ ''.dates.expiry_after_issue''] @ [doc_type @ ''.dates.issue_after_birth'']
      @ [doc_type @ ''.dates.validity_period''] @ [doc_type @ ''.dates.not_expired''])
     (validate_document_dates now issue_date expiry_date dob doc_type)"
    unfolding validate_document_dates_eq [OF v]
    by (intro sound_then_do sound_issue_format sound_expiry_format sound_expiry_after_issue
        sound_issue_after_birth sound_validity_period sound_not_expired p)
  then show ?thesis by (simp add: date_names_def)
qed

lemma sound_passport_number:
  "sound [''passport.passport_number.length'', ''passport.passport_number.present'']
     (\<lambda>self. Inr (check_passport_number md self))"
  by (simp add: check_passport_number_def sound_unfold)

lemma sound_country_of_issue:
  "sound [''passport.country_of_issue.valid'', ''passport.country_of_issue.present'']
     (\<lambda>self. Inr (check_country_of_issue md self))"
  by (simp add: check_country_of_issue_def sound_unfold)

lemma sound_nationality:
  "sound [''passport.nationality.valid''] (\<lambda>self. Inr (check_nationality md self))"
  by (simp add: check_nationality_def sound_unfold)

lemma sound_dl_number:
  "sound [''license.dl_number.length'', ''license.dl_number.present'']
     (\<lambda>self. Inr (check_dl_number md self))"
  by (simp add: check_dl_number_def sound_unfold)

lemma sound_address:
  "sound [''license.address.present''] (\<lambda>self. Inr (check_address ef self))"
  by (simp add: check_address_def sound_unfold)

lemma sound_height:
  "sound [''license.height.format''] (\<lambda>self. Inr (check_height md self))"
  by (simp add: check_height_def sound_unfold)

lemma sound_weight:
  "sound [''license.weight.format''] (\<lambda>self. Inr (check_weight md self))"
  by (simp add: check_weight_def sound_unfold)

lemma sound_metadata_present:
  "sound [''other_id.metadata.present''] (\<lambda>self. Inr (check_metadata_present md self))"
  by (simp add: check_metadata_present_def sound_unfold)

lemma sound_id_type:
  "sound [''other_id.id_type.identified''] (\<lambda>self. Inr (check_id_type md self))"
  by (simp add: check_id_type_def sound_unfold)

lemma validate_essential_fields_eq:
  "validate_essential_fields now ef
     = then_do (\<lambda>self. Inr (check_full_name ef self))
      (then_do (check_date_of_birth now ef) (\<lambda>self. Inr (check_sex ef self)))"
  by (simp add: fun_eq_iff validate_essential_fields_def then_do_def [abs_def])

lemma sound_essential_parts:
  "sound ([''essential_fields.full_name.present'', ''essential_fields.full_name.format'']
     @ [''essential_fields.date_of_birth.format'', ''essential_fields.date_of_birth.past'',
        ''essential_fields.date_of_birth.reasonable'',
        ''essential_fields.date_of_birth.present'']
     @ [''essential_fields.sex.valid'', ''essential_fields.sex.present''])
     (validate_essential_fields now ef)"
  unfolding validate_essential_fields_eq
  by (intro sound_then_do sound_full_name sound_date_of_birth sound_sex)

lemma sound_essential: "sound essential_names (validate_essential_fields now ef)"
  using sound_essential_parts [of now ef] by (simp add: essential_names_def)

lemma emitted_essential:
  "emitted (validate_essential_fields now ef init)
     = results (check_full_name ef init) @ emitted (check_date_of_birth now ef init)
         @ results (check_sex ef init)"
  unfolding validate_essential_fields_eq
  by (simp add: emitted_then_do [OF sound_full_name sound_then_do [OF sound_date_of_birth sound_sex]]
      emitted_then_do [OF sound_date_of_birth sound_sex])

lemma validate_passport_eq:
  "validate_passport now ef md
     = then_do (\<lambda>self. Inr (check_passport_number md self))
      (then_do (\<lambda>self. Inr (check_country_of_issue md self))
      (then_do (\<lambda>self. Inr (check_nationality md self))
         (validate_document_dates now (get_value md ''date_of_issue'')
            (get_value md ''date_of_expiry'') (get_value ef ''date_of_birth'') ''passport'')))"
  by (simp add: fun_eq_iff validate_passport_def then_do_def [abs_def])

lemma sound_passport: "sound passport_names (validate_passport now ef md)"
proof -
  have "sound ([''passport.passport_number.length'', ''passport.passport_number.present'']
      @ [''passport.country_of_issue.valid'', ''passport.country_of_issue.present'']
      @ [''passport.nationality.valid''] @ date_names ''passport'')
      (validate_passport now ef md)"
    unfolding validate_passport_eq
    by (intro sound_then_do sound_passport_number sound_country_of_issue sound_nationality
        sound_document_dates)
  then show ?thesis by (simp add: passport_names_def)
qed

lemma validate_license_eq:
  "validate_license now ef md
     = then_do (\<lambda>self. Inr (check_dl_number md self))
      (then_do (\<lambda>self. Inr (check_address ef self))
      (then_do (\<lambda>self. Inr (check_height md self))
      (then_do (\<lambda>self. Inr (check_weight md self))
         (validate_document_dates now (get_value md ''date_of_issue'')
            (get_value md ''date_of_expiry'') (get_value ef ''date_of_birth'') ''license''))))"
  by (simp add: fun_eq_iff validate_license_def then_do_def [abs_def])

lemma sound_license_tail:
  "sound ([''license.weight.format''] @ date_names ''license'')
     (then_do (\<lambda>self. Inr (check_weight md self))
        (validate_document_dates now i e d ''license''))"
  by (intro sound_then_do sound_weight sound_document_dates)

lemma sound_license_parts:
  "sound ([''license.dl_number.length'', ''license.dl_number.present'']
      @ [''license.address.present''] @ [''license.height.format'']
      @ [''license.weight.format''] @ date_names ''license'')
      (validate_license now ef md)"
  unfolding validate_license_eq
  by (intro sound_then_do sound_dl_number sound_address sound_height sound_weight
      sound_document_dates)

lemma sound_license: "sound license_names (validate_license now ef md)"
  using sound_license_parts [of now ef md] by (simp add: license_names_def)

lemma emitted_license:
  "emitted (validate_license now ef md init)
     = results (check_dl_number md init) @ results (check_address ef init)
         @ results (check_height md init)
         @ emitted (then_do (\<lambda>self. Inr (check_weight md self))
             (validate_document_dates now (get_value md ''date_of_issue'')
                (get_value md ''date_of_expiry'') (get_value ef ''date_of_birth'') ''license'')
             init)"
  unfolding validate_license_eq
  by (simp add:
      emitted_then_do [OF sound_dl_number sound_then_do [OF sound_address
         sound_then_do [OF sound_height sound_license_tail]]]
      emitted_then_do [OF sound_address sound_then_do [OF sound_height sound_license_tail]]
      emitted_then_do [OF sound_height sound_license_tail])

lemma validate_other_id_eq:
  "validate_other_id now ef md
     = then_do (\<lambda>self. Inr (check_metadata_present md self))
      (then_do (\<lambda>self. Inr (check_id_type md self))
         (if truthy_field (map_of md ''date_of_issue'')
               \<or> truthy_field (map_of md ''date_of_expiry'')
          then validate_document_dates now (get_value md ''date_of_issue'')
            (get_value md ''date_of_expiry'') (get_value ef ''date_of_birth'') ''other_id''
          else Inr))"
  by (simp add: fun_eq_iff validate_other_id_def then_do_def [abs_def] Let_def)

lemma sound_other_id: "sound other_id_names (validate_other_id now ef md)"
proof -
  have "sound ([''other_id.metadata.present''] @ [''other_id.id_type.identified'']
      @ date_names ''other_id'') (validate_other_id now ef md)"
    unfolding validate_other_id_eq
    by (intro sound_then_do sound_metadata_present sound_id_type)
       (simp add: sound_document_dates sound_skip)
  then show ?thesis by (simp add: other_id_names_def)
qed

lemma sound_type_specific:
  "sound (passport_names @ license_names @ other_id_names) (type_specific now doc_type ef md)"
  unfolding type_specific_def
  by (auto intro: sound_mono [OF sound_passport] sound_mono [OF sound_license]
      sound_mono [OF sound_other_id] sound_skip)

lemma validate_success:
  assumes "status er = Some ''success''"
  shows "validate now er self0
           = Inr (Report (compile_results (run_results now er)),
                  self0\<lparr>results := run_results now er\<rparr>)"
proof -
  let ?ef = "get_dict (essential_fields er)" and ?md = "get_dict (metadata er)"
  have "validate now er self0
      = and_then (then_do (validate_essential_fields now ?ef)
                    (type_specific now (document_type er) ?ef ?md) (self0\<lparr>results := []\<rparr>))
          (\<lambda>self2. Inr (Report (compile_results (results self2)), self2))"
    by (simp add: validate_def assms Let_def then_do_def type_specific_def and_then_def
        split: sum.splits)
  also have "then_do (validate_essential_fields now ?ef)
        (type_specific now (document_type er) ?ef ?md) (self0\<lparr>results := []\<rparr>)
      = Inr (self0\<lparr>results := run_results now er\<rparr>)"
    by (simp add: then_do_run [OF sound_essential sound_type_specific] run_results_def Let_def)
  finally show ?thesis by simp
qed

lemma run_results_well_formed:
  "list_all (\<lambda>r. well_formed r
       \<and> test_name r \<in> set (essential_names @ passport_names @ license_names @ other_id_names))
     (run_results now er)"
  using sound_all [OF sound_essential, of now "get_dict (essential_fields er)"]
    sound_all [OF sound_type_specific, of now "document_type er"
      "get_dict (essential_fields er)" "get_dict (metadata er)"]
  by (auto simp: run_results_def Let_def list_all_iff)

subsection \<open>The skip law\<close>

text \<open>
  C1 (as amended). For every extraction result whose status is not \<^verbatim>\<open>"success"\<close>,
  \<^verbatim>\<open>validate\<close> raises nothing and returns the skip dict: no counts, no outcome lists,
  and the message \<^verbatim>\<open>"Validation skipped - extraction was not successful"\<close>, which
  begins with a capital V. The outcome buffer is left empty.
\<close>

theorem validate_skip:
  "status er \<noteq> Some ''success'' \<Longrightarrow>
     validate now er self0
       = Inr (Skipped ''Validation skipped - extraction was not successful'',
              self0\<lparr>results := []\<rparr>)"
  by (simp add: validate_def)

theorem validate_skip_witness:
  "validate example_now example_failed init
     = Inr (Skipped ''Validation skipped - extraction was not successful'',
            init\<lparr>results := []\<rparr>)"
  using validate_skip [of example_failed example_now init]
  by (simp add: example_failed_def)

text \<open>
  The message spelled in lower case throughout is not the one returned.
\<close>

theorem validate_skip_message_counterexample:
  "map_sum id fst (validate example_now example_failed init)
     \<noteq> Inr (Skipped ''validation skipped - extraction was not successful'')"
  by (simp add: validate_def example_failed_def)

subsection \<open>The count law\<close>

lemma compile_results_counts:
  assumes "list_all well_formed rs"
  shows "total_tests (compile_results rs)
           = passed_tests (compile_results rs) + failed_tests (compile_results rs)"
    and "errors (compile_results rs) + warnings (compile_results rs)
           = failed_tests (compile_results rs)"
    and "all_tests_passed (compile_results rs) \<longleftrightarrow> failed_tests (compile_results rs) = 0"
proof -
  show "total_tests (compile_results rs)
           = passed_tests (compile_results rs) + failed_tests (compile_results rs)"
    by (simp add: compile_results_def Let_def sum_length_filter_compl)
  show "all_tests_passed (compile_results rs) \<longleftrightarrow> failed_tests (compile_results rs) = 0"
    by (simp add: compile_results_def Let_def)
  from assms show "errors (compile_results rs) + warnings (compile_results rs)
           = failed_tests (compile_results rs)"
    by (induction rs) (auto simp: compile_results_def Let_def well_formed_def)
qed

lemma test_results_compile [simp]: "test_results (compile_results rs) = map to_dict rs"
  by (simp add: compile_results_def Let_def)

lemma passed_of_to_dict [simp]: "passed_of (to_dict r) = passed r"
  by (simp add: to_dict_def)

lemma severity_of_to_dict [simp]: "severity_of (to_dict r) = severity r"
  by (simp add: to_dict_def)

lemma test_to_dict [simp]: "test (to_dict r) = test_name r"
  by (simp add: to_dict_def)

lemma filter_map_to_dict:
  "filter P (map to_dict rs) = map to_dict (filter (\<lambda>r. P (to_dict r)) rs)"
  by (simp add: filter_map comp_def)

lemma errors_compile:
  "errors (compile_results rs)
     = length (filter (\<lambda>d. \<not> passed_of d \<and> severity_of d = ''error'') (map to_dict rs))"
  by (simp add: compile_results_def Let_def filter_map_to_dict)

lemma warnings_compile:
  "warnings (compile_results rs)
     = length (filter (\<lambda>d. \<not> passed_of d \<and> severity_of d = ''warning'') (map to_dict rs))"
  by (simp add: compile_results_def Let_def filter_map_to_dict)

lemma run_results_all_well_formed: "list_all well_formed (run_results now er)"
  using run_results_well_formed [of now er] by (simp add: list_all_iff)

text \<open>
  C2. For every extraction result with status \<^verbatim>\<open>"success"\<close>, \<^verbatim>\<open>validate\<close> returns a
  report in which total_tests = passed + failed, errors + warnings = failed, and
  all_tests_passed holds exactly when failed = 0; errors and warnings count the failed
  outcomes of severity \<^verbatim>\<open>"error"\<close> and \<^verbatim>\<open>"warning"\<close>.
\<close>

theorem count_law:
  assumes "status er = Some ''success''"
  shows "\<exists>b self'. validate now er self0 = Inr (Report b, self')
    \<and> total_tests b = passed_tests b + failed_tests b
    \<and> errors b + warnings b = failed_tests b
    \<and> (all_tests_passed b \<longleftrightarrow> failed_tests b = 0)
    \<and> errors b
        = length (filter (\<lambda>d. \<not> passed_of d \<and> severity_of d = ''error'') (test_results b))
    \<and> warnings b
        = length (filter (\<lambda>d. \<not> passed_of d \<and> severity_of d = ''warning'') (test_results b))"
proof -
  let ?b = "compile_results (run_results now er)"
  have run: "validate now er self0 = Inr (Report ?b, self0\<lparr>results := run_results now er\<rparr>)"
    using assms by (rule validate_success)
  have total: "total_tests ?b = passed_tests ?b + failed_tests ?b"
    and failed: "errors ?b + warnings ?b = failed_tests ?b"
    and all_passed: "all_tests_passed ?b \<longleftrightarrow> failed_tests ?b = 0"
    by (rule compile_results_counts [OF run_results_all_well_formed])+
  have errs: "errors ?b
      = length (filter (\<lambda>d. \<not> passed_of d \<and> severity_of d = ''error'') (test_results ?b))"
    by (simp add: errors_compile)
  have warns: "warnings ?b
      = length (filter (\<lambda>d. \<not> passed_of d \<and> severity_of d = ''warning'') (test_results ?b))"
    by (simp add: warnings_compile)
  show ?thesis
    by (intro exI conjI) (fact run, fact total, fact failed, fact all_passed, fact errs,
        fact warns)
qed

theorem count_law_witness:
  "\<exists>b self'. validate example_now example_license init = Inr (Report b, self')
    \<and> total_tests b = passed_tests b + failed_tests b
    \<and> errors b + warnings b = failed_tests b
    \<and> (all_tests_passed b \<longleftrightarrow> failed_tests b = 0)
    \<and> errors b
        = length (filter (\<lambda>d. \<not> passed_of d \<and> severity_of d = ''error'') (test_results b))
    \<and> warnings b
        = length (filter (\<lambda>d. \<not> passed_of d \<and> severity_of d = ''warning'') (test_results b))"
proof -
  have "status example_license = Some ''success''"
    by (simp add: example_license_def)
  then show ?thesis by (rule count_law)
qed

subsection \<open>No run raises\<close>

lemma validate_not_success:
  "status er \<noteq> Some ''success'' \<Longrightarrow>
     validate now er self0
       = Inr (Skipped ''Validation skipped - extraction was not successful'',
              self0\<lparr>results := []\<rparr>)"
  by (simp add: validate_def)




text \<open>The outcomes of the adversarial example: every test fails, none raises.\<close>

lemma adversarial_run:
  "map (\<lambda>r. (test_name r, passed r)) (run_results example_now example_adversarial)
     = [(''essential_fields.full_name.present'', False),
        (''essential_fields.date_of_birth.format'', False),
        (''essential_fields.sex.present'', False),
        (''passport.passport_number.length'', False),
        (''passport.country_of_issue.present'', False),
        (''passport.date_of_issue.format'', False),
        (''passport.date_of_expiry.format'', False)]"
  by code_simp

subsection \<open>Idempotence\<close>

text \<open>
  C5. From any state of the validator, a call of \<^verbatim>\<open>validate\<close> followed by a second call
  on the same instance with the same extraction result and the same clock reading returns
  the same report both times (counts and outcome lists in content and order): the second
  run starts from the buffer the first one left and is not affected by it.
\<close>

theorem validate_idempotent:
  "\<exists>rep self1. validate now er self0 = Inr (rep, self1)
     \<and> validate now er self1 = Inr (rep, self1)"
proof (cases "status er = Some ''success''")
  case False
  then show ?thesis by (simp add: validate_not_success)
next
  case True
  then show ?thesis by (simp add: validate_success)
qed

theorem validate_idempotent_witness:
  "\<exists>rep self1. validate example_now example_license init = Inr (rep, self1)
     \<and> validate example_now example_license self1 = Inr (rep, self1)"
  by (rule validate_idempotent)

subsection \<open>Severity of passing outcomes\<close>

text \<open>
  C10. In every report with \<^verbatim>\<open>validation_run = True\<close> (that is, for status
  \<^verbatim>\<open>"success"\<close>), every passing outcome has severity \<^verbatim>\<open>"error"\<close>, the severity
  \<^verbatim>\<open>"warning"\<close> occurs on failed outcomes only, and so the outcomes of severity
  \<^verbatim>\<open>"error"\<close> include all passing ones.
\<close>

theorem passing_outcomes_severity:
  assumes "status er = Some ''success''"
  shows "\<exists>b self'. validate now er self0 = Inr (Report b, self')
    \<and> (\<forall>d \<in> set (test_results b).
          (passed_of d \<longrightarrow> severity_of d = ''error'')
          \<and> (severity_of d = ''warning'' \<longrightarrow> \<not> passed_of d))
    \<and> set (filter passed_of (test_results b))
         \<subseteq> set (filter (\<lambda>d. severity_of d = ''error'') (test_results b))"
  using run_results_all_well_formed [of now er]
  by (auto simp: validate_success [OF assms] list_all_iff well_formed_def)

theorem passing_outcomes_severity_witness:
  "\<exists>b self'. validate example_now example_license init = Inr (Report b, self')
    \<and> (\<forall>d \<in> set (test_results b).
          (passed_of d \<longrightarrow> severity_of d = ''error'')
          \<and> (severity_of d = ''warning'' \<longrightarrow> \<not> passed_of d))
    \<and> set (filter passed_of (test_results b))
         \<subseteq> set (filter (\<lambda>d. severity_of d = ''error'') (test_results b))"
proof -
  have "status example_license = Some ''success''"
    by (simp add: example_license_def)
  then show ?thesis by (rule passing_outcomes_severity)
qed

subsection \<open>The outcomes of single tests\<close>

lemma filter_names_none:
  assumes "list_all (\<lambda>r. well_formed r \<and> test_name r \<in> set N) es" and "set N \<inter> S = {}"
  shows "filter (\<lambda>r. test_name r \<in> S) es = []"
  using assms by (auto simp: filter_empty_conv list_all_iff)

lemma test_in_to_dict:
  "filter (\<lambda>d. test d \<in> S) (map to_dict rs) = map to_dict (filter (\<lambda>r. test_name r \<in> S) rs)"
  by (simp add: filter_map comp_def)

lemma run_results_parts:
  "run_results now er
     = results (check_full_name (get_dict (essential_fields er)) init)
       @ emitted (check_date_of_birth now (get_dict (essential_fields er)) init)
       @ results (check_sex (get_dict (essential_fields er)) init)
       @ emitted (type_specific now (document_type er) (get_dict (essential_fields er))
           (get_dict (metadata er)) init)"
  by (simp add: run_results_def Let_def emitted_essential)

lemma results_full_name:
  "results (check_full_name ef init)
     = (let full_name = strip (get_value_str ef ''full_name'') in
        if full_name \<noteq> [] then
          [outcome ''essential_fields.full_name.present'' True
             (''Full name is present: '' @ full_name) None,
           if 2 \<le> length (split full_name) then
             outcome ''essential_fields.full_name.format'' True
               ''Name has at least first and last name'' None
           else
             outcome ''essential_fields.full_name.format'' False
               (''Name may be incomplete - only '' @ str_nat (length (split full_name))
                  @ '' part(s) found'')
               (Some ''warning'')]
        else
          [outcome ''essential_fields.full_name.present'' False
             ''Full name is missing or empty'' None])"
  by (simp add: check_full_name_def init_def add_result_outcome Let_def)

lemma results_sex:
  "results (check_sex ef init)
     = [let sex = get_value_str ef ''sex'' in
        if sex \<in> {''M'', ''F'', ''X''} then
          outcome ''essential_fields.sex.valid'' True (''Sex is valid: '' @ sex) None
        else if sex \<noteq> [] then
          outcome ''essential_fields.sex.valid'' False
            (''Sex value is invalid: '' @ sex @ '' (expected M, F, or X)'') (Some ''warning'')
        else
          outcome ''essential_fields.sex.present'' False ''Sex is missing'' (Some ''warning'')]"
  by (simp add: check_sex_def init_def add_result_outcome Let_def)

lemma results_height:
  "results (check_height md init)
     = (let height = get_value_str md ''height'';
            ok = list_ex (\<lambda>pattern. re_search pattern height) height_patterns
        in
          if height = [] then []
          else [outcome ''license.height.format'' ok
                  (if ok then ''Height format is valid: '' @ height
                   else ''Height format may be invalid: '' @ height)
                  (if ok then None else Some ''warning'')])"
  by (simp add: check_height_def init_def add_result_outcome Let_def)

lemma to_dict_outcome:
  "to_dict (outcome name ok msg sev)
     = ResultDict name ok msg (case sev of None \<Rightarrow> ''error'' | Some s \<Rightarrow> s)"
  by (simp add: to_dict_def outcome_def)

lemmas name_lists = essential_names_def passport_names_def license_names_def
  other_id_names_def date_names_def

lemma sex_names_apart:
  "set [''essential_fields.full_name.present'', ''essential_fields.full_name.format'']
     \<inter> {''essential_fields.sex.valid'', ''essential_fields.sex.present''} = {}"
  "set [''essential_fields.date_of_birth.format'', ''essential_fields.date_of_birth.past'',
        ''essential_fields.date_of_birth.reasonable'',
        ''essential_fields.date_of_birth.present'']
     \<inter> {''essential_fields.sex.valid'', ''essential_fields.sex.present''} = {}"
  "set (passport_names @ license_names @ other_id_names)
     \<inter> {''essential_fields.sex.valid'', ''essential_fields.sex.present''} = {}"
  by (simp_all add: name_lists)

lemma sound_all_pure:
  "sound N (\<lambda>self. Inr (h self)) \<Longrightarrow>
     list_all (\<lambda>r. well_formed r \<and> test_name r \<in> set N) (results (h init))"
  by (drule sound_all) (simp only: emitted_Inr)

text \<open>
  C6. In a run on a result with status \<^verbatim>\<open>"success"\<close>, the sex test appends exactly one
  outcome: for a value among M, F, X a passing \<^verbatim>\<open>essential_fields.sex.valid\<close>; for any
  other non-empty value a failed \<^verbatim>\<open>essential_fields.sex.valid\<close> of severity
  \<^verbatim>\<open>"warning"\<close>; for an empty or absent value a failed
  \<^verbatim>\<open>essential_fields.sex.present\<close> of severity \<^verbatim>\<open>"warning"\<close>. No other test of the
  run uses these two names.
\<close>

theorem sex_check:
  assumes "status er = Some ''success''"
  shows "\<exists>b self'. validate now er self0 = Inr (Report b, self')
    \<and> filter (\<lambda>d. test d \<in> {''essential_fields.sex.valid'', ''essential_fields.sex.present''})
         (test_results b)
       = [let sex = get_value_str (get_dict (essential_fields er)) ''sex'' in
          if sex \<in> {''M'', ''F'', ''X''} then
            ResultDict ''essential_fields.sex.valid'' True (''Sex is valid: '' @ sex) ''error''
          else if sex \<noteq> [] then
            ResultDict ''essential_fields.sex.valid'' False
              (''Sex value is invalid: '' @ sex @ '' (expected M, F, or X)'') ''warning''
          else
            ResultDict ''essential_fields.sex.present'' False ''Sex is missing'' ''warning'']"
proof -
  let ?S = "{''essential_fields.sex.valid'', ''essential_fields.sex.present''}"
  let ?ef = "get_dict (essential_fields er)"
  have a: "filter (\<lambda>r. test_name r \<in> ?S) (results (check_full_name ?ef init)) = []"
    using sound_all_pure [OF sound_full_name] sex_names_apart(1) by (rule filter_names_none)
  have b: "filter (\<lambda>r. test_name r \<in> ?S) (emitted (check_date_of_birth now ?ef init)) = []"
    using sound_all [OF sound_date_of_birth] sex_names_apart(2) by (rule filter_names_none)
  have c: "filter (\<lambda>r. test_name r \<in> ?S)
        (emitted (type_specific now (document_type er) ?ef (get_dict (metadata er)) init)) = []"
    using sound_all [OF sound_type_specific] sex_names_apart(3) by (rule filter_names_none)
  have d: "filter (\<lambda>r. test_name r \<in> ?S) (results (check_sex ?ef init))
      = results (check_sex ?ef init)"
    by (simp add: results_sex Let_def)
  have "filter (\<lambda>r. test_name r \<in> ?S) (run_results now er) = results (check_sex ?ef init)"
    unfolding run_results_parts filter_append a b c d by simp
  then have "filter (\<lambda>d. test d \<in> ?S) (test_results (compile_results (run_results now er)))
      = map to_dict (results (check_sex ?ef init))"
    by (simp only: test_results_compile test_in_to_dict)
  also have "\<dots> = [let sex = get_value_str ?ef ''sex'' in
          if sex \<in> {''M'', ''F'', ''X''} then
            ResultDict ''essential_fields.sex.valid'' True (''Sex is valid: '' @ sex) ''error''
          else if sex \<noteq> [] then
            ResultDict ''essential_fields.sex.valid'' False
              (''Sex value is invalid: '' @ sex @ '' (expected M, F, or X)'') ''warning''
          else
            ResultDict ''essential_fields.sex.present'' False ''Sex is missing'' ''warning'']"
    by (simp add: results_sex Let_def to_dict_outcome)
  finally show ?thesis
    using validate_success [OF assms] by blast
qed

lemmas example_fields = example_license_def get_dict_def get_value_str_def get_value_def
  str_field_def

theorem sex_check_witness:
  "\<exists>b self'. validate example_now example_license init = Inr (Report b, self')
    \<and> filter (\<lambda>d. test d \<in> {''essential_fields.sex.valid'', ''essential_fields.sex.present''})
         (test_results b)
       = [ResultDict ''essential_fields.sex.valid'' False
            ''Sex value is invalid: Male (expected M, F, or X)'' ''warning'']"
proof -
  have "status example_license = Some ''success''"
    by (simp add: example_license_def)
  from sex_check [OF this, of example_now init] show ?thesis
    by (simp add: example_fields)
qed

lemma full_name_names_apart:
  "set [''essential_fields.date_of_birth.format'', ''essential_fields.date_of_birth.past'',
        ''essential_fields.date_of_birth.reasonable'',
        ''essential_fields.date_of_birth.present'']
     \<inter> {''essential_fields.full_name.present'', ''essential_fields.full_name.format''} = {}"
  "set [''essential_fields.sex.valid'', ''essential_fields.sex.present'']
     \<inter> {''essential_fields.full_name.present'', ''essential_fields.full_name.format''} = {}"
  "set (passport_names @ license_names @ other_id_names)
     \<inter> {''essential_fields.full_name.present'', ''essential_fields.full_name.format''} = {}"
  by (simp_all add: name_lists)

text \<open>
  C8. In a run on a result with status \<^verbatim>\<open>"success"\<close>: when the name is non-empty after
  \<^verbatim>\<open>strip\<close>, the outcomes named \<^verbatim>\<open>essential_fields.full_name.*\<close> are a passing
  \<^verbatim>\<open>present\<close> followed by \<^verbatim>\<open>format\<close>, which passes exactly when \<^verbatim>\<open>split\<close> yields
  at least two parts and otherwise fails with severity \<^verbatim>\<open>"warning"\<close> and a message that
  states the number of parts; when the name is empty after \<^verbatim>\<open>strip\<close>, the only such
  outcome is a failed \<^verbatim>\<open>present\<close> of severity \<^verbatim>\<open>"error"\<close> with the message
  \<^verbatim>\<open>"Full name is missing or empty"\<close>.
\<close>

theorem full_name_check:
  assumes "status er = Some ''success''"
  shows "\<exists>b self'. validate now er self0 = Inr (Report b, self')
    \<and> filter (\<lambda>d. test d \<in> {''essential_fields.full_name.present'',
                              ''essential_fields.full_name.format''})
         (test_results b)
       = (let full_name = strip (get_value_str (get_dict (essential_fields er)) ''full_name'');
              parts = length (split full_name)
          in
            if full_name \<noteq> [] then
              [ResultDict ''essential_fields.full_name.present'' True
                 (''Full name is present: '' @ full_name) ''error'',
               if 2 \<le> parts then
                 ResultDict ''essential_fields.full_name.format'' True
                   ''Name has at least first and last name'' ''error''
               else
                 ResultDict ''essential_fields.full_name.format'' False
                   (''Name may be incomplete - only '' @ str_nat parts @ '' part(s) found'')
                   ''warning'']
            else
              [ResultDict ''essential_fields.full_name.present'' False
                 ''Full name is missing or empty'' ''error''])"
proof -
  let ?S = "{''essential_fields.full_name.present'', ''essential_fields.full_name.format''}"
  let ?ef = "get_dict (essential_fields er)"
  have a: "filter (\<lambda>r. test_name r \<in> ?S) (results (check_full_name ?ef init))
      = results (check_full_name ?ef init)"
    by (simp add: results_full_name Let_def)
  have b: "filter (\<lambda>r. test_name r \<in> ?S) (emitted (check_date_of_birth now ?ef init)) = []"
    using sound_all [OF sound_date_of_birth] full_name_names_apart(1)
    by (rule filter_names_none)
  have c: "filter (\<lambda>r. test_name r \<in> ?S) (results (check_sex ?ef init)) = []"
    using sound_all_pure [OF sound_sex] full_name_names_apart(2) by (rule filter_names_none)
  have d: "filter (\<lambda>r. test_name r \<in> ?S)
        (emitted (type_specific now (document_type er) ?ef (get_dict (metadata er)) init)) = []"
    using sound_all [OF sound_type_specific] full_name_names_apart(3)
    by (rule filter_names_none)
  have "filter (\<lambda>r. test_name r \<in> ?S) (run_results now er)
      = results (check_full_name ?ef init)"
    unfolding run_results_parts filter_append a b c d by simp
  then have "filter (\<lambda>d. test d \<in> ?S) (test_results (compile_results (run_results now er)))
      = map to_dict (results (check_full_name ?ef init))"
    by (simp only: test_results_compile test_in_to_dict)
  also have "\<dots> = (let full_name = strip (get_value_str ?ef ''full_name'');
              parts = length (split full_name)
          in
            if full_name \<noteq> [] then
              [ResultDict ''essential_fields.full_name.present'' True
                 (''Full name is present: '' @ full_name) ''error'',
               if 2 \<le> parts then
                 ResultDict ''essential_fields.full_name.format'' True
                   ''Name has at least first and last name'' ''error''
               else
                 ResultDict ''essential_fields.full_name.format'' False
                   (''Name may be incomplete - only '' @ str_nat parts @ '' part(s) found'')
                   ''warning'']
            else
              [ResultDict ''essential_fields.full_name.present'' False
                 ''Full name is missing or empty'' ''error''])"
    by (simp add: results_full_name Let_def to_dict_outcome)
  finally show ?thesis
    using validate_success [OF assms] by blast
qed

theorem full_name_check_witness:
  "\<exists>b self'. validate example_now example_license init = Inr (Report b, self')
    \<and> filter (\<lambda>d. test d \<in> {''essential_fields.full_name.present'',
                              ''essential_fields.full_name.format''})
         (test_results b)
       = [ResultDict ''essential_fields.full_name.present'' True
            ''Full name is present: Madonna'' ''error'',
          ResultDict ''essential_fields.full_name.format'' False
            ''Name may be incomplete - only 1 part(s) found'' ''warning'']"
proof -
  have "status example_license = Some ''success''"
    by (simp add: example_license_def)
  moreover have "strip ''Madonna'' = ''Madonna''" "split ''Madonna'' = [''Madonna'']"
    "str_nat 1 = ''1''"
    by code_simp+
  ultimately show ?thesis
    using full_name_check [of example_license example_now init]
    by (simp add: example_fields)
qed

lemma height_names_apart:
  "set essential_names \<inter> {''license.height.format''} = {}"
  "set [''license.dl_number.length'', ''license.dl_number.present'']
     \<inter> {''license.height.format''} = {}"
  "set [''license.address.present''] \<inter> {''license.height.format''} = {}"
  "set ([''license.weight.format''] @ date_names ''license'')
     \<inter> {''license.height.format''} = {}"
  by (simp_all add: name_lists)

text \<open>
  C9. In a run on a driver's license with status \<^verbatim>\<open>"success"\<close>: when the height value
  is non-empty, exactly one outcome named \<^verbatim>\<open>license.height.format\<close> is appended; it
  passes exactly when \<^verbatim>\<open>re.search\<close> finds one of the three height patterns (feet and
  inches, ft ... in, cm; letters in either case) somewhere in the value, and otherwise it
  fails with severity \<^verbatim>\<open>"warning"\<close>. When the height is absent or empty, no outcome of
  that name is appended. What finding a pattern says about the value is spelled out in
  \<open>height_patterns_meaning\<close> below.
\<close>

theorem height_check:
  assumes "status er = Some ''success''" and "document_type er = Some ''drivers_license''"
  shows "\<exists>b self'. validate now er self0 = Inr (Report b, self')
    \<and> filter (\<lambda>d. test d \<in> {''license.height.format''}) (test_results b)
       = (let height = get_value_str (get_dict (metadata er)) ''height'';
              ok = list_ex (\<lambda>pattern. re_search pattern height) height_patterns
          in
            if height = [] then []
            else [ResultDict ''license.height.format'' ok
                    (if ok then ''Height format is valid: '' @ height
                     else ''Height format may be invalid: '' @ height)
                    (if ok then ''error'' else ''warning'')])"
proof -
  let ?S = "{''license.height.format''}"
  let ?ef = "get_dict (essential_fields er)" and ?md = "get_dict (metadata er)"
  have ts: "type_specific now (document_type er) ?ef ?md = validate_license now ?ef ?md"
    by (simp add: type_specific_def assms(2))
  have a: "filter (\<lambda>r. test_name r \<in> ?S) (emitted (validate_essential_fields now ?ef init)) = []"
    using sound_all [OF sound_essential] height_names_apart(1) by (rule filter_names_none)
  have b: "filter (\<lambda>r. test_name r \<in> ?S) (results (check_dl_number ?md init)) = []"
    using sound_all_pure [OF sound_dl_number] height_names_apart(2) by (rule filter_names_none)
  have c: "filter (\<lambda>r. test_name r \<in> ?S) (results (check_address ?ef init)) = []"
    using sound_all_pure [OF sound_address] height_names_apart(3) by (rule filter_names_none)
  have d: "filter (\<lambda>r. test_name r \<in> ?S)
      (emitted (then_do (\<lambda>self. Inr (check_weight ?md self))
         (validate_document_dates now (get_value ?md ''date_of_issue'')
            (get_value ?md ''date_of_expiry'') (get_value ?ef ''date_of_birth'') ''license'')
         init)) = []"
    using sound_all [OF sound_license_tail] height_names_apart(4) by (rule filter_names_none)
  have e: "filter (\<lambda>r. test_name r \<in> ?S) (results (check_height ?md init))
      = results (check_height ?md init)"
    by (simp add: results_height Let_def)
  have "filter (\<lambda>r. test_name r \<in> ?S) (run_results now er) = results (check_height ?md init)"
    unfolding run_results_def Let_def ts emitted_license filter_append a b c d e by simp
  then have "filter (\<lambda>d. test d \<in> ?S) (test_results (compile_results (run_results now er)))
      = map to_dict (results (check_height ?md init))"
    by (simp only: test_results_compile test_in_to_dict)
  also have "\<dots> = (let height = get_value_str ?md ''height'';
              ok = list_ex (\<lambda>pattern. re_search pattern height) height_patterns
          in
            if height = [] then []
            else [ResultDict ''license.height.format'' ok
                    (if ok then ''Height format is valid: '' @ height
                     else ''Height format may be invalid: '' @ height)
                    (if ok then ''error'' else ''warning'')])"
    by (simp add: results_height Let_def to_dict_outcome)
  finally show ?thesis
    using validate_success [OF assms(1)] by blast
qed

theorem height_check_witness:
  "\<exists>b self'. validate example_now example_license init = Inr (Report b, self')
    \<and> filter (\<lambda>d. test d \<in> {''license.height.format''}) (test_results b)
       = [ResultDict ''license.height.format'' True ''Height format is valid: 170 cm''
            ''error'']"
proof -
  have "status example_license = Some ''success''"
    and "document_type example_license = Some ''drivers_license''"
    by (simp_all add: example_license_def)
  moreover have "list_ex (\<lambda>pattern. re_search pattern ''170 cm'') height_patterns"
    by code_simp
  ultimately show ?thesis
    using height_check [of example_license example_now init]
    by (simp add: example_fields)
qed

text \<open>The three height patterns on examples.\<close>

lemma height_examples:
  "list_ex (\<lambda>pattern. re_search pattern (''5'' @ [CHR 0x27] @ ''10'' @ [CHR 0x22])) height_patterns"
  "list_ex (\<lambda>pattern. re_search pattern ''5 FT 10 in'') height_patterns"
  "list_ex (\<lambda>pattern. re_search pattern ''5ftin'') height_patterns"
  "\<not> list_ex (\<lambda>pattern. re_search pattern ''tall'') height_patterns"
  "\<not> list_ex (\<lambda>pattern. re_search pattern ''170'') height_patterns"
  "\<not> list_ex (\<lambda>pattern. re_search pattern ''cm 170'') height_patterns"
  by code_simp+

subsection \<open>Date relationships\<close>

lemma strptime_Nil: "strptime [] = Inl ValueError"
  by code_simp

lemma validate_date_if_Some:
  "strptime s = Inr d \<Longrightarrow> validate_date_if (Some s) = Inr (True, Some d)"
  by (cases "s = []") (simp_all add: strptime_Nil validate_date_if_def validate_date_cases)

lemma parsed_True [simp]: "parsed (True, Some d)"
  by (simp add: parsed_def)

lemma emitted_document_dates:
  assumes v: "validate_date_if issue_date = Inr issue"
    "validate_date_if expiry_date = Inr expiry" "validate_date_if dob = Inr birth"
    and p: "parsed issue" "parsed expiry" "parsed birth"
  shows "emitted (validate_document_dates now issue_date expiry_date dob doc_type init)
    = results (test_issue_format issue_date (fst issue) doc_type init)
      @ results (test_expiry_format expiry_date (fst expiry) doc_type init)
      @ emitted (test_expiry_after_issue issue_date expiry_date issue expiry doc_type init)
      @ emitted (test_issue_after_birth issue_date dob issue birth doc_type init)
      @ emitted (test_validity_period issue expiry doc_type init)
      @ emitted (test_not_expired now expiry_date expiry doc_type init)"
proof -
  note s6 = sound_not_expired [OF p(2), of doc_type now expiry_date]
  note s5 = sound_then_do [OF sound_validity_period [OF p(1,2), of doc_type] s6]
  note s4 = sound_then_do
    [OF sound_issue_after_birth [OF p(1,3), of doc_type issue_date dob] s5]
  note s3 = sound_then_do
    [OF sound_expiry_after_issue [OF p(1,2), of doc_type issue_date expiry_date] s4]
  note s2 = sound_then_do [OF sound_expiry_format [of doc_type expiry_date "fst expiry"] s3]
  show ?thesis
    unfolding validate_document_dates_eq [OF v]
    by (simp add: emitted_then_do [OF sound_issue_format s2]
        emitted_then_do [OF sound_expiry_format s3]
        emitted_then_do [OF sound_expiry_after_issue [OF p(1,2)] s4]
        emitted_then_do [OF sound_issue_after_birth [OF p(1,3)] s5]
        emitted_then_do [OF sound_validity_period [OF p(1,2)] s6])
qed

lemma filter_name_none:
  assumes "list_all (\<lambda>r. well_formed r \<and> test_name r \<in> set N) es" and "n \<notin> set N"
  shows "filter (\<lambda>r. test_name r = n) es = []"
  using assms by (auto simp: filter_empty_conv list_all_iff)

text \<open>
  C7. When an issue date and an expiry date are supplied and both are accepted by the date
  parser (which holds in particular for two valid dates written YYYY-MM-DD),
  \<^verbatim>\<open>_validate_document_dates\<close> returns normally and appends exactly one outcome named
  \<^verbatim>\<open>{prefix}.dates.expiry_after_issue\<close>: it passes exactly when the issue date is
  strictly before the expiry date, and otherwise fails with severity \<^verbatim>\<open>"error"\<close>.
\<close>

theorem expiry_after_issue_check:
  assumes "strptime issue_date = Inr i" and "strptime expiry_date = Inr e"
  shows "\<exists>es. validate_document_dates now (Some issue_date) (Some expiry_date) dob doc_type self
          = Inr (self\<lparr>results := results self @ es\<rparr>)
    \<and> filter (\<lambda>r. test_name r = doc_type @ ''.dates.expiry_after_issue'') es
       = [\<lparr>test_name = doc_type @ ''.dates.expiry_after_issue'',
           passed = datetime_less i e,
           message =
             (if datetime_less i e then ''Expiry date is after issue date''
              else ''Expiry date ('' @ expiry_date @ '') is not after issue date (''
                     @ issue_date @ '')''),
           severity = ''error''\<rparr>]"
proof -
  let ?n = "doc_type @ ''.dates.expiry_after_issue''"
  let ?issue = "(True, Some i)" and ?expiry = "(True, Some e)"
  obtain birth where b: "validate_date_if dob = Inr birth" "parsed birth"
    using parsed_validate_date_if by blast
  have v: "validate_date_if (Some issue_date) = Inr ?issue"
    "validate_date_if (Some expiry_date) = Inr ?expiry"
    using assms by (simp_all add: validate_date_if_Some)
  let ?es = "emitted (validate_document_dates now (Some issue_date) (Some expiry_date) dob
      doc_type init)"
  have run: "validate_document_dates now (Some issue_date) (Some expiry_date) dob doc_type self
      = Inr (self\<lparr>results := results self @ ?es\<rparr>)"
    using sound_document_dates by (rule sound_run)
  have f1: "filter (\<lambda>r. test_name r = ?n)
      (results (test_issue_format (Some issue_date) True doc_type init)) = []"
    by (rule filter_name_none [OF sound_all_pure [OF sound_issue_format]]) simp
  have f2: "filter (\<lambda>r. test_name r = ?n)
      (results (test_expiry_format (Some expiry_date) True doc_type init)) = []"
    by (rule filter_name_none [OF sound_all_pure [OF sound_expiry_format]]) simp
  have f4: "filter (\<lambda>r. test_name r = ?n)
      (emitted (test_issue_after_birth (Some issue_date) dob ?issue birth doc_type init)) = []"
    by (rule filter_name_none [OF sound_all [OF sound_issue_after_birth]])
       (simp_all add: b)
  have f5: "filter (\<lambda>r. test_name r = ?n)
      (emitted (test_validity_period ?issue ?expiry doc_type init)) = []"
    by (rule filter_name_none [OF sound_all [OF sound_validity_period]]) simp_all
  have f6: "filter (\<lambda>r. test_name r = ?n)
      (emitted (test_not_expired now (Some expiry_date) ?expiry doc_type init)) = []"
    by (rule filter_name_none [OF sound_all [OF sound_not_expired]]) simp_all
  have f3: "filter (\<lambda>r. test_name r = ?n)
      (emitted (test_expiry_after_issue (Some issue_date) (Some expiry_date) ?issue ?expiry
         doc_type init))
    = [\<lparr>test_name = ?n, passed = datetime_less i e,
        message =
          (if datetime_less i e then ''Expiry date is after issue date''
           else ''Expiry date ('' @ expiry_date @ '') is not after issue date (''
                  @ issue_date @ '')''),
        severity = ''error''\<rparr>]"
    by (simp add: test_expiry_after_issue_def init_def add_result_def fmt_def)
  have "filter (\<lambda>r. test_name r = ?n) ?es
    = [\<lparr>test_name = ?n, passed = datetime_less i e,
        message =
          (if datetime_less i e then ''Expiry date is after issue date''
           else ''Expiry date ('' @ expiry_date @ '') is not after issue date (''
                  @ issue_date @ '')''),
        severity = ''error''\<rparr>]"
    unfolding emitted_document_dates [OF v b(1) parsed_True parsed_True b(2)] filter_append
      fst_conv f1 f2 f3 f4 f5 f6
    by simp
  with run show ?thesis by blast
qed

theorem expiry_after_issue_check_witness:
  "\<exists>es. validate_document_dates example_now (Some ''2020-01-01'') (Some ''2019-01-01'')
           (Some ''1990-05-15'') ''license'' init
          = Inr (init\<lparr>results := results init @ es\<rparr>)
    \<and> filter (\<lambda>r. test_name r = ''license.dates.expiry_after_issue'') es
       = [\<lparr>test_name = ''license.dates.expiry_after_issue'',
           passed = False,
           message = ''Expiry date (2019-01-01) is not after issue date (2020-01-01)'',
           severity = ''error''\<rparr>]"
proof -
  let ?i = "\<lparr>year = 2020, month = 1, day = 1, hour = 0, minute = 0, second = 0,
    microsecond = 0\<rparr>"
  let ?e = "\<lparr>year = 2019, month = 1, day = 1, hour = 0, minute = 0, second = 0,
    microsecond = 0\<rparr>"
  have i: "strptime ''2020-01-01'' = Inr ?i" and e: "strptime ''2019-01-01'' = Inr ?e"
    by code_simp+
  have "\<not> datetime_less ?i ?e"
    by code_simp
  with expiry_after_issue_check [OF i e, of example_now "Some ''1990-05-15''" "''license''" init]
  show ?thesis by simp
qed

subsection \<open>The date parser\<close>

lemma in_cls [simp]: "(x, r) \<in> set (cls P s) \<longleftrightarrow> (\<exists>c. s = c # r \<and> x = [c] \<and> P c)"
  by (auto simp: cls_def split: list.splits)

lemma in_seq [simp]:
  "(x, r) \<in> set (seq p q s)
     \<longleftrightarrow> (\<exists>x1 x2 m. x = x1 @ x2 \<and> (x1, m) \<in> set (p s) \<and> (x2, r) \<in> set (q m))"
  by (force simp: seq_def)

lemma in_alt [simp]: "(x, r) \<in> set (alt p q s) \<longleftrightarrow> (x, r) \<in> set (p s) \<or> (x, r) \<in> set (q s)"
  by (simp add: alt_def)

lemma in_group_Y:
  "(Y, r) \<in> set (group_Y s) \<longleftrightarrow> s = Y @ r \<and> length Y = 4 \<and> list_all isdigit Y"
proof
  assume "(Y, r) \<in> set (group_Y s)"
  then show "s = Y @ r \<and> length Y = 4 \<and> list_all isdigit Y"
    by (auto simp: group_Y_def)
next
  assume a: "s = Y @ r \<and> length Y = 4 \<and> list_all isdigit Y"
  then obtain a b c d where "Y = [a, b, c, d]"
    by (auto simp: length_Suc_conv numeral_eq_Suc)
  with a show "(Y, r) \<in> set (group_Y s)"
    by (simp add: group_Y_def)
qed

lemma in_group_m:
  "(M, r) \<in> set (group_m s) \<longleftrightarrow> s = M @ r \<and> M \<in> set month_texts"
  by (auto simp: group_m_def lit_def one_of_def month_texts_def)

lemma group_d_sound:
  "(D, r) \<in> set (group_d s) \<Longrightarrow> s = D @ r \<and> D \<in> set day_texts"
  apply (clarsimp simp: group_d_def lit_def one_of_def isdigit_def)
  apply (elim disjE exE conjE; simp add: day_texts_def)
  done

lemma group_d_complete:
  "D \<in> set day_texts \<Longrightarrow> (D, r) \<in> set (group_d (D @ r))"
  apply (simp add: day_texts_def)
  apply (elim disjE; simp add: group_d_def lit_def one_of_def isdigit_def)
  done

lemma in_group_d:
  "(D, r) \<in> set (group_d s) \<longleftrightarrow> s = D @ r \<and> D \<in> set day_texts"
  using group_d_sound group_d_complete by blast

lemma in_lit: "(h, r) \<in> set (lit c s) \<longleftrightarrow> s = c # r \<and> h = [c]"
  by (auto simp: lit_def)

lemma format_regex_sound:
  assumes "(Y, M, D, r) \<in> set (format_regex s)"
  shows "s = Y @ ''-'' @ M @ ''-'' @ D @ r \<and> length Y = 4 \<and> list_all isdigit Y
    \<and> M \<in> set month_texts \<and> D \<in> set day_texts"
proof -
  from assms obtain r1 r2 r3 r4 h1 h2 where
    "(Y, r1) \<in> set (group_Y s)" "(h1, r2) \<in> set (lit CHR ''-'' r1)"
    "(M, r3) \<in> set (group_m r2)" "(h2, r4) \<in> set (lit CHR ''-'' r3)"
    "(D, r) \<in> set (group_d r4)"
    by (auto simp: format_regex_def)
  then show ?thesis
    by (simp add: in_group_Y in_group_m in_group_d in_lit)
qed

lemma group_Y_digits:
  assumes "length Y = 4" and "list_all isdigit Y"
  shows "group_Y (Y @ r) = [(Y, r)]"
proof -
  from assms(1) obtain a b c d where "Y = [a, b, c, d]"
    by (auto simp: length_Suc_conv numeral_eq_Suc)
  with assms(2) show ?thesis
    by (simp add: group_Y_def seq_def cls_def)
qed

lemma lit_head: "lit c (c # r) = [([c], r)]"
  by (simp add: lit_def cls_def)

lemma group_m_then_hyphen:
  "M \<in> set month_texts \<Longrightarrow>
     concat (map (\<lambda>(m, r3). concat (map (\<lambda>(h2, r4). E m r4) (lit CHR ''-'' r3)))
       (group_m (M @ CHR ''-'' # r))) = E M r"
  apply (simp add: month_texts_def)
  apply (elim disjE; simp add: group_m_def alt_def seq_def lit_def one_of_def cls_def)
  done

lemma group_d_head:
  "D \<in> set day_texts \<Longrightarrow> \<exists>rest. group_d D = (D, []) # rest"
  apply (simp add: day_texts_def)
  apply (elim disjE; simp add: group_d_def alt_def seq_def lit_def one_of_def cls_def isdigit_def)
  done

lemma format_regex_complete:
  assumes "length Y = 4" and "list_all isdigit Y"
    and "M \<in> set month_texts" and "D \<in> set day_texts"
  shows "\<exists>rest. format_regex (Y @ ''-'' @ M @ ''-'' @ D) = (Y, M, D, []) # rest"
proof -
  from group_d_head [OF assms(4)] obtain rest where "group_d D = (D, []) # rest" ..
  then show ?thesis
    by (simp add: format_regex_def group_Y_digits [OF assms(1,2)] lit_head
        group_m_then_hyphen [OF assms(3)])
qed

lemma month_value:
  "M \<in> set month_texts \<Longrightarrow> 1 \<le> int_of_str M \<and> int_of_str M \<le> 12"
  apply (simp add: month_texts_def)
  apply (elim disjE; simp add: int_of_str_def strip_def isspace_def ord_def)
  done

lemma day_value: "D \<in> set day_texts \<Longrightarrow> 1 \<le> int_of_str D"
  apply (simp add: day_texts_def)
  apply (elim disjE; simp add: int_of_str_def strip_def isspace_def ord_def)
  done

lemma digit_value: "isdigit c \<Longrightarrow> ord c - 48 \<le> 9 \<and> \<not> isspace c"
  apply (simp add: isdigit_def)
  apply (elim disjE; simp add: isspace_def ord_def)
  done

lemma year_value:
  assumes "length Y = 4" and "list_all isdigit Y"
  shows "int_of_str Y \<le> 9999"
proof -
  from assms(1) obtain a b c d where Y: "Y = [a, b, c, d]"
    by (auto simp: length_Suc_conv numeral_eq_Suc)
  with assms(2) have "ord a - 48 \<le> 9 \<and> \<not> isspace a" "ord b - 48 \<le> 9" "ord c - 48 \<le> 9"
    "ord d - 48 \<le> 9 \<and> \<not> isspace d"
    by (simp_all add: digit_value)
  then show ?thesis
    by (simp add: Y int_of_str_def strip_def)
qed

lemma check_date_fields_ok:
  "check_date_fields y m d = Inr u \<longleftrightarrow>
     1 \<le> y \<and> y \<le> 9999 \<and> 1 \<le> m \<and> m \<le> 12 \<and> 1 \<le> d \<and> d \<le> days_in_month y m"
  by (auto simp: check_date_fields_def)

lemma strptime_accepts:
  "strptime s = Inr dt \<longleftrightarrow>
     (\<exists>Y M D. s = Y @ ''-'' @ M @ ''-'' @ D
        \<and> length Y = 4 \<and> list_all isdigit Y \<and> M \<in> set month_texts \<and> D \<in> set day_texts
        \<and> 1 \<le> int_of_str Y \<and> int_of_str D \<le> days_in_month (int_of_str Y) (int_of_str M)
        \<and> dt = midnight (int_of_str Y) (int_of_str M) (int_of_str D))"
proof
  assume a: "strptime s = Inr dt"
  then obtain Y M D rest where f: "format_regex s = (Y, M, D, []) # rest"
    by (auto simp: strptime_def split: list.splits if_splits)
  then have "(Y, M, D, []) \<in> set (format_regex s)"
    by simp
  from format_regex_sound [OF this] have shape: "s = Y @ ''-'' @ M @ ''-'' @ D"
    "length Y = 4" "list_all isdigit Y" "M \<in> set month_texts" "D \<in> set day_texts"
    by simp_all
  from a f have "check_date_fields (int_of_str Y) (int_of_str M) (int_of_str D) = Inr ()"
    and "dt = midnight (int_of_str Y) (int_of_str M) (int_of_str D)"
    by (auto simp: strptime_def Let_def midnight_def split: sum.splits)
  with shape show "\<exists>Y M D. s = Y @ ''-'' @ M @ ''-'' @ D
        \<and> length Y = 4 \<and> list_all isdigit Y \<and> M \<in> set month_texts \<and> D \<in> set day_texts
        \<and> 1 \<le> int_of_str Y \<and> int_of_str D \<le> days_in_month (int_of_str Y) (int_of_str M)
        \<and> dt = midnight (int_of_str Y) (int_of_str M) (int_of_str D)"
    unfolding check_date_fields_ok by blast
next
  assume "\<exists>Y M D. s = Y @ ''-'' @ M @ ''-'' @ D
        \<and> length Y = 4 \<and> list_all isdigit Y \<and> M \<in> set month_texts \<and> D \<in> set day_texts
        \<and> 1 \<le> int_of_str Y \<and> int_of_str D \<le> days_in_month (int_of_str Y) (int_of_str M)
        \<and> dt = midnight (int_of_str Y) (int_of_str M) (int_of_str D)"
  then obtain Y M D where s: "s = Y @ ''-'' @ M @ ''-'' @ D"
    and Y: "length Y = 4" "list_all isdigit Y"
    and M: "M \<in> set month_texts" and D: "D \<in> set day_texts"
    and v: "1 \<le> int_of_str Y" "int_of_str D \<le> days_in_month (int_of_str Y) (int_of_str M)"
    and dt: "dt = midnight (int_of_str Y) (int_of_str M) (int_of_str D)"
    by blast
  from format_regex_complete [OF Y M D] obtain rest where
    f: "format_regex s = (Y, M, D, []) # rest"
    unfolding s ..
  have "check_date_fields (int_of_str Y) (int_of_str M) (int_of_str D) = Inr ()"
    unfolding check_date_fields_ok
    using v year_value [OF Y] month_value [OF M] day_value [OF D] by simp
  with f dt show "strptime s = Inr dt"
    by (simp add: strptime_def Let_def midnight_def)
qed




text \<open>The parser on examples.\<close>

lemma date_examples:
  "validate_date ''1990-05-15'' = Inr (True, Some (midnight 1990 5 15))"
  "validate_date ''1990-05- 5'' = Inr (True, Some (midnight 1990 5 5))"
  "validate_date ''2024-02-29'' = Inr (True, Some (midnight 2024 2 29))"
  "validate_date ''2023-02-29'' = Inr (False, None)"
  "validate_date ''0000-01-01'' = Inr (False, None)"
  "validate_date ''1990-05-15T00:00'' = Inr (False, None)"
  "validate_date ''15/05/1990'' = Inr (False, None)"
  "validate_date ''90-05-15'' = Inr (False, None)"
  "validate_date '' 1990-05-15'' = Inr (False, None)"
  by code_simp+

subsection \<open>Dates in the strict form\<close>

text \<open>
  A string of the strict form YYYY-MM-DD that names a day of the calendar, with a year of
  at least 1, is accepted: the strict grammar is included in the one the parser
  implements.
\<close>

lemma two_digit_month:
  "isdigit a \<Longrightarrow> isdigit b \<Longrightarrow> 1 \<le> int_of_str [a, b] \<Longrightarrow> int_of_str [a, b] \<le> 12
     \<Longrightarrow> [a, b] \<in> set month_texts"
  apply (simp add: isdigit_def)
  apply (elim disjE; simp add: int_of_str_def strip_def isspace_def ord_def month_texts_def)
  done

lemma two_digit_day:
  "isdigit a \<Longrightarrow> isdigit b \<Longrightarrow> 1 \<le> int_of_str [a, b] \<Longrightarrow> int_of_str [a, b] \<le> 31
     \<Longrightarrow> [a, b] \<in> set day_texts"
  apply (simp add: isdigit_def)
  apply (elim disjE; simp add: int_of_str_def strip_def isspace_def ord_def day_texts_def)
  done

lemma days_in_month_le: "1 \<le> m \<Longrightarrow> m \<le> 12 \<Longrightarrow> days_in_month y m \<le> 31"
proof -
  assume "1 \<le> m" "m \<le> 12"
  then have "m \<in> {1, 2, 3, 4, 5, 6, 7, 8, 9, 10, 11, 12}"
    by simp arith
  then show ?thesis
    by (auto simp: days_in_month_def)
qed

lemma strict_dates_accepted:
  assumes "yyyy_mm_dd s"
    and "y = int_of_str (take 4 s)" and "m = int_of_str (take 2 (drop 5 s))"
    and "d = int_of_str (drop 8 s)"
    and "1 \<le> y" and "1 \<le> m" and "m \<le> 12" and "1 \<le> d" and "d \<le> days_in_month y m"
  shows "validate_date s = Inr (True, Some (midnight y m d))"
proof -
  from assms(1) obtain y1 y2 y3 y4 m1 m2 d1 d2 where
    s: "s = [y1, y2, y3, y4, CHR ''-'', m1, m2, CHR ''-'', d1, d2]"
    and dg: "isdigit y1" "isdigit y2" "isdigit y3" "isdigit y4" "isdigit m1" "isdigit m2"
      "isdigit d1" "isdigit d2"
    by (auto simp: yyyy_mm_dd_def length_Suc_conv numeral_eq_Suc)
  have M: "[m1, m2] \<in> set month_texts"
    using dg assms(3,6,7) by (intro two_digit_month) (simp_all add: s)
  have "d \<le> 31"
    using assms(9) days_in_month_le [OF assms(6,7), of y] by simp
  then have D: "[d1, d2] \<in> set day_texts"
    using dg assms(4,8) by (intro two_digit_day) (simp_all add: s)
  have "\<exists>Y M D. s = Y @ ''-'' @ M @ ''-'' @ D
         \<and> length Y = 4 \<and> list_all isdigit Y \<and> M \<in> set month_texts \<and> D \<in> set day_texts
         \<and> 1 \<le> int_of_str Y \<and> int_of_str D \<le> days_in_month (int_of_str Y) (int_of_str M)
         \<and> midnight y m d = midnight (int_of_str Y) (int_of_str M) (int_of_str D)"
    apply (rule exI [of _ "[y1, y2, y3, y4]"])
    apply (rule exI [of _ "[m1, m2]"])
    apply (rule exI [of _ "[d1, d2]"])
    using M D dg assms(2-5,9) by (simp add: s)
  then have "strptime s = Inr (midnight y m d)"
    by (simp only: strptime_accepts)
  then show ?thesis
    by (simp add: validate_date_cases)
qed

subsection \<open>What the patterns match\<close>

text \<open>
  The matchers in terms of the text: \<^verbatim>\<open>re.search\<close> succeeds when the pattern matches
  at some position, a repetition matches any run of the class, and a letter under
  \<^verbatim>\<open>re.IGNORECASE\<close> matches itself and its capital. The three height patterns are then
  read off as decompositions of the value.
\<close>

lemma re_search_iff: "re_search p s \<longleftrightarrow> (\<exists>pre rest. s = pre @ rest \<and> p rest \<noteq> [])"
proof
  assume "re_search p s"
  then obtain i where "p (drop i s) \<noteq> []"
    unfolding re_search_def list_ex_iff by blast
  moreover have "s = take i s @ drop i s"
    by simp
  ultimately show "\<exists>pre rest. s = pre @ rest \<and> p rest \<noteq> []"
    by blast
next
  assume "\<exists>pre rest. s = pre @ rest \<and> p rest \<noteq> []"
  then obtain pre rest where "s = pre @ rest" "p rest \<noteq> []"
    by blast
  then have "length pre \<in> set [0 ..< Suc (length s)]" "p (drop (length pre) s) \<noteq> []"
    by simp_all
  then show "re_search p s"
    unfolding re_search_def list_ex_iff by blast
qed

lemma prefix_takeWhile:
  "k \<le> length (takeWhile P s) \<longleftrightarrow> k \<le> length s \<and> list_all P (take k s)"
proof
  assume k: "k \<le> length (takeWhile P s)"
  have "take k s = take k (takeWhile P s @ dropWhile P s)"
    by simp
  also have "\<dots> = take k (takeWhile P s)"
    using k by (simp only: take_append) simp
  finally have "set (take k s) \<subseteq> set (takeWhile P s)"
    by (simp add: set_take_subset)
  moreover have "length (takeWhile P s) \<le> length s"
    by (rule length_takeWhile_le)
  ultimately show "k \<le> length s \<and> list_all P (take k s)"
    using k by (auto simp: list_all_iff dest: set_takeWhileD)
next
  assume a: "k \<le> length s \<and> list_all P (take k s)"
  have "takeWhile P s = takeWhile P (take k s @ drop k s)"
    by simp
  also have "\<dots> = take k s @ takeWhile P (drop k s)"
    using a by (simp only: list_all_iff takeWhile_append2) 
  finally have "length (takeWhile P s) = k + length (takeWhile P (drop k s))"
    using a by simp
  then show "k \<le> length (takeWhile P s)"
    by simp
qed

lemma in_star: "(x, r) \<in> set (star P s) \<longleftrightarrow> s = x @ r \<and> list_all P x"
proof
  assume "(x, r) \<in> set (star P s)"
  then have "\<exists>k. k < Suc (length (takeWhile P s)) \<and> x = take k s \<and> r = drop k s"
    unfolding star_def set_map set_rev set_upt by auto
  then obtain k where "k \<le> length (takeWhile P s)" "x = take k s" "r = drop k s"
    by (auto simp: less_Suc_eq_le)
  then show "s = x @ r \<and> list_all P x"
    by (simp add: prefix_takeWhile)
next
  assume a: "s = x @ r \<and> list_all P x"
  then have "length x \<le> length (takeWhile P s)"
    by (simp add: prefix_takeWhile)
  moreover from a have "(x, r) = (take (length x) s, drop (length x) s)"
    by simp
  ultimately show "(x, r) \<in> set (star P s)"
    unfolding star_def set_map set_rev set_upt
    by (intro image_eqI [of _ _ "length x"]) (simp_all add: less_Suc_eq_le)
qed

lemma in_plus: "(x, r) \<in> set (plus P s) \<longleftrightarrow> s = x @ r \<and> x \<noteq> [] \<and> list_all P x"
proof
  assume "(x, r) \<in> set (plus P s)"
  then have "\<exists>k. 1 \<le> k \<and> k < Suc (length (takeWhile P s)) \<and> x = take k s \<and> r = drop k s"
    unfolding plus_def set_map set_rev set_upt by auto
  then obtain k where "1 \<le> k" "k \<le> length (takeWhile P s)" "x = take k s" "r = drop k s"
    by (auto simp: less_Suc_eq_le)
  then show "s = x @ r \<and> x \<noteq> [] \<and> list_all P x"
    by (auto simp: prefix_takeWhile)
next
  assume a: "s = x @ r \<and> x \<noteq> [] \<and> list_all P x"
  then have "length x \<le> length (takeWhile P s)" "1 \<le> length x"
    by (simp_all add: prefix_takeWhile Suc_le_eq)
  moreover from a have "(x, r) = (take (length x) s, drop (length x) s)"
    by simp
  ultimately show "(x, r) \<in> set (plus P s)"
    unfolding plus_def set_map set_rev set_upt
    by (intro image_eqI [of _ _ "length x"]) (simp_all add: less_Suc_eq_le)
qed

lemma char_of_inj_256:
  "m < 256 \<Longrightarrow> n < 256 \<Longrightarrow> (char_of (m::nat) :: char) = char_of n \<longleftrightarrow> m = n"
proof
  assume "m < 256" "n < 256" and "(char_of m :: char) = char_of n"
  then have "(of_char (char_of m :: char) :: nat) = of_char (char_of n :: char)"
    by simp
  with \<open>m < 256\<close> \<open>n < 256\<close> show "m = n"
    by simp
qed simp

lemma ord_less_256: "ord c < 256"
  by (simp add: ord_def)

lemma char_of_ord: "char_of (ord c) = c"
  by (simp add: ord_def)

lemma ord_eq_iff: "ord c = ord a \<longleftrightarrow> c = a"
  by (simp add: ord_def)

lemma upper_char_letter:
  assumes "97 \<le> ord a" and "ord a \<le> 122"
  shows "upper_char c = upper_char a \<longleftrightarrow> c = a \<or> c = char_of (ord a - 32)"
proof -
  have a: "upper_char a = [char_of (ord a - 32)]"
    using assms by (simp add: upper_char_def)
  have ua: "ord (char_of (ord a - 32) :: char) = ord a - 32"
    using assms by (simp add: ord_def)
  consider (lower) "97 \<le> ord c" "ord c \<le> 122"
    | (sharp) "ord c = 223"
    | (accent) "224 \<le> ord c" "ord c \<le> 254" "ord c \<noteq> 247"
    | (other) "\<not> (97 \<le> ord c \<and> ord c \<le> 122)" "ord c \<noteq> 223"
        "\<not> (224 \<le> ord c \<and> ord c \<le> 254 \<and> ord c \<noteq> 247)"
    by blast
  then show ?thesis
  proof cases
    case lower
    then have "upper_char c = [char_of (ord c - 32)]"
      by (simp add: upper_char_def)
    moreover have "(char_of (ord c - 32) :: char) = char_of (ord a - 32) \<longleftrightarrow> ord c = ord a"
      using lower assms by (subst char_of_inj_256) auto
    moreover have "c \<noteq> char_of (ord a - 32)"
      using lower ua assms by (auto simp: ord_eq_iff [symmetric])
    ultimately show ?thesis
      by (simp add: a ord_eq_iff)
  next
    case sharp
    then have "upper_char c = ''SS''"
      by (simp add: upper_char_def)
    moreover have "c \<noteq> a" "c \<noteq> char_of (ord a - 32)"
      using sharp ua assms by (auto simp: ord_eq_iff [symmetric])
    ultimately show ?thesis
      by (simp add: a)
  next
    case accent
    then have "upper_char c = [char_of (ord c - 32)]"
      by (simp add: upper_char_def)
    moreover have "(char_of (ord c - 32) :: char) \<noteq> char_of (ord a - 32)"
      using accent assms by (subst char_of_inj_256) auto
    moreover have "c \<noteq> a" "c \<noteq> char_of (ord a - 32)"
      using accent ua assms by (auto simp: ord_eq_iff [symmetric])
    ultimately show ?thesis
      by (simp add: a)
  next
    case other
    then have "upper_char c = [c]"
      by (auto simp: upper_char_def)
    moreover have "c \<noteq> a"
      using other assms by auto
    ultimately show ?thesis
      by (simp add: a)
  qed
qed

lemma in_lit_i:
  assumes "97 \<le> ord a" and "ord a \<le> 122"
  shows "(x, r) \<in> set (lit_i a s)
    \<longleftrightarrow> (\<exists>c. s = c # r \<and> x = [c] \<and> (c = a \<or> c = char_of (ord a - 32)))"
  by (simp add: lit_i_def upper_char_letter [OF assms])

lemma has_match: "xs \<noteq> [] \<longleftrightarrow> (\<exists>x r. (x, r) \<in> set xs)"
  by (cases xs) auto

lemma seqI:
  "(x1, m) \<in> set (p s) \<Longrightarrow> (x2, r) \<in> set (q m) \<Longrightarrow> (x1 @ x2, r) \<in> set (seq p q s)"
  by (auto simp: in_seq)

lemma cm_pattern:
  "re_search (seq (plus isdigit) (seq (star isspace)
      (seq (lit_i CHR ''c'') (lit_i CHR ''m'')))) s
   \<longleftrightarrow> (\<exists>pre ds ws c m post. s = pre @ ds @ ws @ [c, m] @ post
         \<and> ds \<noteq> [] \<and> list_all isdigit ds \<and> list_all isspace ws
         \<and> c \<in> {CHR ''c'', CHR ''C''} \<and> m \<in> {CHR ''m'', CHR ''M''})"
proof -
  have c: "(97::nat) \<le> ord CHR ''c''" "ord CHR ''c'' \<le> 122"
    "(char_of (ord CHR ''c'' - 32) :: char) = CHR ''C''"
    and m: "(97::nat) \<le> ord CHR ''m''" "ord CHR ''m'' \<le> 122"
    "(char_of (ord CHR ''m'' - 32) :: char) = CHR ''M''"
    by code_simp+
  let ?p = "seq (plus isdigit) (seq (star isspace) (seq (lit_i CHR ''c'') (lit_i CHR ''m'')))"
  note match = in_plus in_star in_lit_i [OF c(1,2)] in_lit_i [OF m(1,2)] c(3) m(3)
  show ?thesis
  proof
    assume "re_search ?p s"
    then obtain pre rest x post where s: "s = pre @ rest" and "(x, post) \<in> set (?p rest)"
      unfolding re_search_iff has_match by blast
    then obtain ds ws c m where "rest = ds @ ws @ [c, m] @ post" "ds \<noteq> []"
      "list_all isdigit ds" "list_all isspace ws"
      "c \<in> {CHR ''c'', CHR ''C''}" "m \<in> {CHR ''m'', CHR ''M''}"
      by (auto simp: match)
    with s show "\<exists>pre ds ws c m post. s = pre @ ds @ ws @ [c, m] @ post
         \<and> ds \<noteq> [] \<and> list_all isdigit ds \<and> list_all isspace ws
         \<and> c \<in> {CHR ''c'', CHR ''C''} \<and> m \<in> {CHR ''m'', CHR ''M''}"
      by blast
  next
    assume "\<exists>pre ds ws c m post. s = pre @ ds @ ws @ [c, m] @ post
         \<and> ds \<noteq> [] \<and> list_all isdigit ds \<and> list_all isspace ws
         \<and> c \<in> {CHR ''c'', CHR ''C''} \<and> m \<in> {CHR ''m'', CHR ''M''}"
    then obtain pre ds ws c m post where s: "s = pre @ ds @ ws @ [c, m] @ post"
      and f: "ds \<noteq> []" "list_all isdigit ds" "list_all isspace ws"
        "c \<in> {CHR ''c'', CHR ''C''}" "m \<in> {CHR ''m'', CHR ''M''}"
      by blast
    have "([m], post) \<in> set (lit_i CHR ''m'' (m # post))"
      using f by (simp add: match)
    then have "([c] @ [m], post)
        \<in> set (seq (lit_i CHR ''c'') (lit_i CHR ''m'') (c # m # post))"
      using f by (intro seqI) (simp_all add: match)
    then have "(ws @ [c] @ [m], post)
        \<in> set (seq (star isspace) (seq (lit_i CHR ''c'') (lit_i CHR ''m''))
                 (ws @ c # m # post))"
      using f by (intro seqI) (simp_all add: match)
    then have "(ds @ ws @ [c] @ [m], post) \<in> set (?p (ds @ ws @ c # m # post))"
      using f by (intro seqI) (simp_all add: match)
    then have "(ds @ ws @ [c] @ [m], post) \<in> set (?p (ds @ ws @ [c, m] @ post))"
      by simp
    then show "re_search ?p s"
      unfolding re_search_iff has_match s by blast
  qed
qed

lemma feet_inches_pattern:
  "re_search (seq (plus isdigit) (seq (lit (CHR 0x27)) (seq (star isspace)
      (seq (plus isdigit) (lit (CHR 0x22)))))) s
   \<longleftrightarrow> (\<exists>pre feet ws inches post.
         s = pre @ feet @ [CHR 0x27] @ ws @ inches @ [CHR 0x22] @ post
         \<and> feet \<noteq> [] \<and> list_all isdigit feet \<and> list_all isspace ws
         \<and> inches \<noteq> [] \<and> list_all isdigit inches)"
proof -
  let ?q4 = "seq (plus isdigit) (lit (CHR 0x22))"
  let ?q3 = "seq (star isspace) ?q4"
  let ?q2 = "seq (lit (CHR 0x27)) ?q3"
  let ?p = "seq (plus isdigit) ?q2"
  note match = in_plus in_star in_lit
  show ?thesis
  proof
    assume "re_search ?p s"
    then obtain pre rest x post where s: "s = pre @ rest" and "(x, post) \<in> set (?p rest)"
      unfolding re_search_iff has_match by blast
    then obtain feet ws inches where
      "rest = feet @ [CHR 0x27] @ ws @ inches @ [CHR 0x22] @ post" "feet \<noteq> []"
      "list_all isdigit feet" "list_all isspace ws" "inches \<noteq> []" "list_all isdigit inches"
      by (auto simp: match)
    with s show "\<exists>pre feet ws inches post.
         s = pre @ feet @ [CHR 0x27] @ ws @ inches @ [CHR 0x22] @ post
         \<and> feet \<noteq> [] \<and> list_all isdigit feet \<and> list_all isspace ws
         \<and> inches \<noteq> [] \<and> list_all isdigit inches"
      by blast
  next
    assume "\<exists>pre feet ws inches post.
         s = pre @ feet @ [CHR 0x27] @ ws @ inches @ [CHR 0x22] @ post
         \<and> feet \<noteq> [] \<and> list_all isdigit feet \<and> list_all isspace ws
         \<and> inches \<noteq> [] \<and> list_all isdigit inches"
    then obtain pre feet ws inches post where
      s: "s = pre @ feet @ [CHR 0x27] @ ws @ inches @ [CHR 0x22] @ post"
      and f: "feet \<noteq> []" "list_all isdigit feet" "list_all isspace ws" "inches \<noteq> []"
        "list_all isdigit inches"
      by blast
    have "(inches @ [CHR 0x22], post) \<in> set (?q4 (inches @ CHR 0x22 # post))"
      using f by (intro seqI) (simp_all add: match)
    then have "(ws @ inches @ [CHR 0x22], post)
        \<in> set (?q3 (ws @ inches @ CHR 0x22 # post))"
      using f by (intro seqI) (simp_all add: match)
    then have "([CHR 0x27] @ ws @ inches @ [CHR 0x22], post)
        \<in> set (?q2 (CHR 0x27 # ws @ inches @ CHR 0x22 # post))"
      using f by (intro seqI) (simp_all add: match)
    then have "(feet @ [CHR 0x27] @ ws @ inches @ [CHR 0x22], post)
        \<in> set (?p (feet @ CHR 0x27 # ws @ inches @ CHR 0x22 # post))"
      using f by (intro seqI) (simp_all add: match)
    then have "(feet @ [CHR 0x27] @ ws @ inches @ [CHR 0x22], post)
        \<in> set (?p (feet @ [CHR 0x27] @ ws @ inches @ [CHR 0x22] @ post))"
      by simp
    then show "re_search ?p s"
      unfolding re_search_iff has_match s by blast
  qed
qed

lemma ft_in_pattern:
  "re_search (seq (plus isdigit) (seq (star isspace) (seq (lit_i CHR ''f'')
      (seq (lit_i CHR ''t'') (seq (star isspace) (seq (star isdigit) (seq (star isspace)
      (seq (lit_i CHR ''i'') (lit_i CHR ''n''))))))))) s
   \<longleftrightarrow> (\<exists>pre feet ws1 f t ws2 inches ws3 i n post.
         s = pre @ feet @ ws1 @ [f, t] @ ws2 @ inches @ ws3 @ [i, n] @ post
         \<and> feet \<noteq> [] \<and> list_all isdigit feet \<and> list_all isspace ws1
         \<and> f \<in> {CHR ''f'', CHR ''F''} \<and> t \<in> {CHR ''t'', CHR ''T''}
         \<and> list_all isspace ws2 \<and> list_all isdigit inches \<and> list_all isspace ws3
         \<and> i \<in> {CHR ''i'', CHR ''I''} \<and> n \<in> {CHR ''n'', CHR ''N''})"
proof -
  have l: "(97::nat) \<le> ord CHR ''f''" "ord CHR ''f'' \<le> 122"
    "(char_of (ord CHR ''f'' - 32) :: char) = CHR ''F''"
    "(97::nat) \<le> ord CHR ''t''" "ord CHR ''t'' \<le> 122"
    "(char_of (ord CHR ''t'' - 32) :: char) = CHR ''T''"
    "(97::nat) \<le> ord CHR ''i''" "ord CHR ''i'' \<le> 122"
    "(char_of (ord CHR ''i'' - 32) :: char) = CHR ''I''"
    "(97::nat) \<le> ord CHR ''n''" "ord CHR ''n'' \<le> 122"
    "(char_of (ord CHR ''n'' - 32) :: char) = CHR ''N''"
    by code_simp+
  let ?q8 = "seq (lit_i CHR ''i'') (lit_i CHR ''n'')"
  let ?q7 = "seq (star isspace) ?q8"
  let ?q6 = "seq (star isdigit) ?q7"
  let ?q5 = "seq (star isspace) ?q6"
  let ?q4 = "seq (lit_i CHR ''t'') ?q5"
  let ?q3 = "seq (lit_i CHR ''f'') ?q4"
  let ?q2 = "seq (star isspace) ?q3"
  let ?p = "seq (plus isdigit) ?q2"
  note match = in_plus in_star in_lit_i [OF l(1,2)] in_lit_i [OF l(4,5)]
    in_lit_i [OF l(7,8)] in_lit_i [OF l(10,11)] l(3,6,9,12)
  show ?thesis
  proof
    assume "re_search ?p s"
    then obtain pre rest x post where s: "s = pre @ rest" and "(x, post) \<in> set (?p rest)"
      unfolding re_search_iff has_match by blast
    then obtain feet ws1 f t ws2 inches ws3 i n where
      "rest = feet @ ws1 @ [f, t] @ ws2 @ inches @ ws3 @ [i, n] @ post"
      "feet \<noteq> []" "list_all isdigit feet" "list_all isspace ws1"
      "f \<in> {CHR ''f'', CHR ''F''}" "t \<in> {CHR ''t'', CHR ''T''}"
      "list_all isspace ws2" "list_all isdigit inches" "list_all isspace ws3"
      "i \<in> {CHR ''i'', CHR ''I''}" "n \<in> {CHR ''n'', CHR ''N''}"
      by (auto simp: match)
    with s show "\<exists>pre feet ws1 f t ws2 inches ws3 i n post.
         s = pre @ feet @ ws1 @ [f, t] @ ws2 @ inches @ ws3 @ [i, n] @ post
         \<and> feet \<noteq> [] \<and> list_all isdigit feet \<and> list_all isspace ws1
         \<and> f \<in> {CHR ''f'', CHR ''F''} \<and> t \<in> {CHR ''t'', CHR ''T''}
         \<and> list_all isspace ws2 \<and> list_all isdigit inches \<and> list_all isspace ws3
         \<and> i \<in> {CHR ''i'', CHR ''I''} \<and> n \<in> {CHR ''n'', CHR ''N''}"
      by blast
  next
    assume "\<exists>pre feet ws1 f t ws2 inches ws3 i n post.
         s = pre @ feet @ ws1 @ [f, t] @ ws2 @ inches @ ws3 @ [i, n] @ post
         \<and> feet \<noteq> [] \<and> list_all isdigit feet \<and> list_all isspace ws1
         \<and> f \<in> {CHR ''f'', CHR ''F''} \<and> t \<in> {CHR ''t'', CHR ''T''}
         \<and> list_all isspace ws2 \<and> list_all isdigit inches \<and> list_all isspace ws3
         \<and> i \<in> {CHR ''i'', CHR ''I''} \<and> n \<in> {CHR ''n'', CHR ''N''}"
    then obtain pre feet ws1 f t ws2 inches ws3 i n post where
      s: "s = pre @ feet @ ws1 @ [f, t] @ ws2 @ inches @ ws3 @ [i, n] @ post"
      and g: "feet \<noteq> []" "list_all isdigit feet" "list_all isspace ws1"
        "f \<in> {CHR ''f'', CHR ''F''}" "t \<in> {CHR ''t'', CHR ''T''}"
        "list_all isspace ws2" "list_all isdigit inches" "list_all isspace ws3"
        "i \<in> {CHR ''i'', CHR ''I''}" "n \<in> {CHR ''n'', CHR ''N''}"
      by blast
    have "([n], post) \<in> set (lit_i CHR ''n'' (n # post))"
      using g by (simp add: match)
    then have "([i] @ [n], post) \<in> set (?q8 (i # n # post))"
      using g by (intro seqI) (simp_all add: match)
    then have "(ws3 @ [i] @ [n], post) \<in> set (?q7 (ws3 @ i # n # post))"
      using g by (intro seqI) (simp_all add: match)
    then have "(inches @ ws3 @ [i] @ [n], post) \<in> set (?q6 (inches @ ws3 @ i # n # post))"
      using g by (intro seqI) (simp_all add: match)
    then have "(ws2 @ inches @ ws3 @ [i] @ [n], post)
        \<in> set (?q5 (ws2 @ inches @ ws3 @ i # n # post))"
      using g by (intro seqI) (simp_all add: match)
    then have "([t] @ ws2 @ inches @ ws3 @ [i] @ [n], post)
        \<in> set (?q4 (t # ws2 @ inches @ ws3 @ i # n # post))"
      using g by (intro seqI) (simp_all add: match)
    then have "([f] @ [t] @ ws2 @ inches @ ws3 @ [i] @ [n], post)
        \<in> set (?q3 (f # t # ws2 @ inches @ ws3 @ i # n # post))"
      using g by (intro seqI) (simp_all add: match)
    then have "(ws1 @ [f] @ [t] @ ws2 @ inches @ ws3 @ [i] @ [n], post)
        \<in> set (?q2 (ws1 @ f # t # ws2 @ inches @ ws3 @ i # n # post))"
      using g by (intro seqI) (simp_all add: match)
    then have "(feet @ ws1 @ [f] @ [t] @ ws2 @ inches @ ws3 @ [i] @ [n], post)
        \<in> set (?p (feet @ ws1 @ f # t # ws2 @ inches @ ws3 @ i # n # post))"
      using g by (intro seqI) (simp_all add: match)
    then have "(feet @ ws1 @ [f] @ [t] @ ws2 @ inches @ ws3 @ [i] @ [n], post)
        \<in> set (?p (feet @ ws1 @ [f, t] @ ws2 @ inches @ ws3 @ [i, n] @ post))"
      by simp
    then show "re_search ?p s"
      unfolding re_search_iff has_match s by blast
  qed
qed

lemma height_patterns_meaning:
  "list_ex (\<lambda>pattern. re_search pattern h) height_patterns \<longleftrightarrow>
     (\<exists>pre feet ws inches post.
         h = pre @ feet @ [CHR 0x27] @ ws @ inches @ [CHR 0x22] @ post
         \<and> feet \<noteq> [] \<and> list_all isdigit feet \<and> list_all isspace ws
         \<and> inches \<noteq> [] \<and> list_all isdigit inches)
     \<or> (\<exists>pre feet ws1 f t ws2 inches ws3 i n post.
         h = pre @ feet @ ws1 @ [f, t] @ ws2 @ inches @ ws3 @ [i, n] @ post
         \<and> feet \<noteq> [] \<and> list_all isdigit feet \<and> list_all isspace ws1
         \<and> f \<in> {CHR ''f'', CHR ''F''} \<and> t \<in> {CHR ''t'', CHR ''T''}
         \<and> list_all isspace ws2 \<and> list_all isdigit inches \<and> list_all isspace ws3
         \<and> i \<in> {CHR ''i'', CHR ''I''} \<and> n \<in> {CHR ''n'', CHR ''N''})
     \<or> (\<exists>pre ds ws c m post. h = pre @ ds @ ws @ [c, m] @ post
         \<and> ds \<noteq> [] \<and> list_all isdigit ds \<and> list_all isspace ws
         \<and> c \<in> {CHR ''c'', CHR ''C''} \<and> m \<in> {CHR ''m'', CHR ''M''})"
  unfolding height_patterns_def list_ex_Cons_iff list_ex_Nil_iff feet_inches_pattern ft_in_pattern cm_pattern
  by (simp only: simp_thms)

end
